theory Spec2Isabelle
  imports
    Complex_Main
    "HOL-Library.Multiset"
    "HOL-Library.Sublist"
    "HOL-Library.Char_ord"
    "HOL-Library.List_Lexorder"
    "HOL-Library.Product_Lexorder"
    "HOL-Library.Log_Nat"
begin

section \<open>Numbers as SQLite stores them\<close>

text \<open>
  A Python int is unbounded; SQLite stores an \<^verbatim>\<open>INTEGER\<close> in 64 bits. Binding a Python int
  outside that range to a \<^verbatim>\<open>?\<close> raises \<^verbatim>\<open>OverflowError\<close>, which is not an
  \<^verbatim>\<open>sqlite3.Error\<close>.
\<close>

definition int64 :: "int \<Rightarrow> bool" where
  "int64 n = (- (2 ^ 63) \<le> n \<and> n < 2 ^ 63)"

text \<open>
  The value of the column \<^verbatim>\<open>quantity\<close> is an \<^verbatim>\<open>INTEGER\<close> or, once an addition has left the
  64 bits, a \<^verbatim>\<open>REAL\<close>: a double. Sums and differences of integers and of integral doubles
  are integral, so \<open>REAL r\<close> holds the double whose value is the integer \<open>r\<close>.
\<close>

datatype number = INTEGER int | REAL int

fun value_of :: "number \<Rightarrow> int" where
  "value_of (INTEGER i) = i"
| "value_of (REAL r) = r"

text \<open>
  The double nearest to an integer: 53 significant bits, a tie goes to the even neighbour.
  (The exponent of a double ends at \<open>2 ^ 1024\<close>; quantities stay far below, since a double
  from \<open>2 ^ 117\<close> on absorbs every 64-bit summand.)
\<close>

definition to_double :: "int \<Rightarrow> int" where
  "to_double n =
     (let m = \<bar>n\<bar>;
          u = 2 ^ nat (bitlen m - 53);
          q = m div u;
          r = m mod u;
          q' = (if 2 * r < u \<or> (2 * r = u \<and> even q) then q else q + 1)
      in sgn n * (q' * u))"

text \<open>
  A \<^verbatim>\<open>REAL\<close> stored into a column of \<^verbatim>\<open>INTEGER\<close> affinity becomes an \<^verbatim>\<open>INTEGER\<close> when it is
  integral and fits: SQLite asks that the double survive the round trip through a 64-bit
  integer other than the two extreme ones, and no double lies between \<open>2 ^ 63 - 1024\<close> and
  \<open>2 ^ 63\<close>.
\<close>

definition integer_affinity :: "int \<Rightarrow> number" where
  "integer_affinity r = (if - (2 ^ 63) < r \<and> r < 2 ^ 63 then INTEGER r else REAL r)"

text \<open>
  \<^verbatim>\<open>quantity + ?\<close> and \<^verbatim>\<open>quantity - ?\<close> with a 64-bit integer bound to \<^verbatim>\<open>?\<close>: integer
  arithmetic while the result fits in 64 bits, otherwise the arithmetic of doubles on the
  operands converted to doubles.
\<close>

definition sql_add :: "number \<Rightarrow> int \<Rightarrow> number" where
  "sql_add v n =
     (case v of
        INTEGER i \<Rightarrow>
          if int64 (i + n) then INTEGER (i + n)
          else integer_affinity (to_double (to_double i + to_double n))
      | REAL r \<Rightarrow> integer_affinity (to_double (r + to_double n)))"

definition sql_sub :: "number \<Rightarrow> int \<Rightarrow> number" where
  "sql_sub v n =
     (case v of
        INTEGER i \<Rightarrow>
          if int64 (i - n) then INTEGER (i - n)
          else integer_affinity (to_double (to_double i - to_double n))
      | REAL r \<Rightarrow> integer_affinity (to_double (r - to_double n)))"

text \<open>
  A Python float as \<^verbatim>\<open>float(...)\<close> returns it. It is stored and printed, never computed
  with. SQLite binds \<open>NaN\<close> as \<^verbatim>\<open>NULL\<close>.
\<close>

datatype pyfloat = Float real | Inf | Neg_Inf | NaN

section \<open>The stored data\<close>

text \<open>
  The three tables of \<^verbatim>\<open>create_tables\<close> in \<^verbatim>\<open>stock.py\<close>, one record per row. A nullable
  column is an \<open>option\<close> (\<open>None\<close> is SQL \<^verbatim>\<open>NULL\<close>); \<^verbatim>\<open>TEXT\<close> is a \<open>string\<close>. The row ids and
  the quantity of a transaction are only ever written from a bound 64-bit integer or by
  \<^verbatim>\<open>AUTOINCREMENT\<close> and are plain \<open>int\<close>s. The column \<^verbatim>\<open>trans_type\<close> only ever receives the
  literals \<^verbatim>\<open>'IN'\<close> and \<^verbatim>\<open>'OUT'\<close>, the two values its \<^verbatim>\<open>CHECK\<close> admits. The column
  \<^verbatim>\<open>Transactions.product_id\<close> is nullable in the schema, but the only insert passes the
  integer read by \<^verbatim>\<open>input_int\<close>.
\<close>

record supplier =
  s_supplier_id :: int
  s_name :: string
  s_contact :: "string option"

record product =
  p_product_id :: int
  p_name :: string
  p_category :: "string option"
  p_quantity :: number
  p_price :: pyfloat
  p_supplier_id :: "int option"

datatype trans_type = IN | OUT

record transaction =
  t_trans_id :: int
  t_product_id :: int
  t_trans_type :: trans_type
  t_quantity :: int
  t_date :: string

text \<open>
  The database file. A table that has not been created is \<open>None\<close>. The three counters are the
  rows of \<^verbatim>\<open>sqlite_sequence\<close> that \<^verbatim>\<open>AUTOINCREMENT\<close> keeps: the largest row id ever used.
\<close>

record db =
  Suppliers :: "supplier list option"
  Products :: "product list option"
  Transactions :: "transaction list option"
  seq_Suppliers :: int
  seq_Products :: int
  seq_Transactions :: int

definition suppliers_of :: "db \<Rightarrow> supplier list" where
  "suppliers_of d = (case Suppliers d of None \<Rightarrow> [] | Some rows \<Rightarrow> rows)"

definition products_of :: "db \<Rightarrow> product list" where
  "products_of d = (case Products d of None \<Rightarrow> [] | Some rows \<Rightarrow> rows)"

definition transactions_of :: "db \<Rightarrow> transaction list" where
  "transactions_of d = (case Transactions d of None \<Rightarrow> [] | Some rows \<Rightarrow> rows)"

definition no_tables :: db where
  "no_tables = \<lparr>Suppliers = None, Products = None, Transactions = None,
     seq_Suppliers = 0, seq_Products = 0, seq_Transactions = 0\<rparr>"

section \<open>The SQL statements of the source\<close>

text \<open>
  A call of \<^verbatim>\<open>execute\<close> goes through three stages. Preparing the statement raises
  \<^verbatim>\<open>sqlite3.Error\<close> when a table it names (or, with \<^verbatim>\<open>PRAGMA foreign_keys = ON\<close>, the parent
  table of a foreign key of the table it writes) does not exist. Binding the parameters
  raises \<^verbatim>\<open>OverflowError\<close> when a Python int among them does not fit in 64 bits. Running
  the statement raises \<^verbatim>\<open>sqlite3.Error\<close> when a constraint is violated or no row id is
  left, which is the result \<open>None\<close> of \<open>step\<close>. A statement that raises changes nothing.
\<close>

record 'a statement =
  prepare :: "db \<Rightarrow> bool"
  parameters :: "int list"
  step :: "db \<Rightarrow> 'a option"

text \<open>
  \<^verbatim>\<open>AUTOINCREMENT\<close>: the new row id is one more than the largest row id ever used. When
  that does not fit in 64 bits any more, the insert raises \<^verbatim>\<open>sqlite3.Error\<close> (the database
  is full).
\<close>

definition autoincrement :: "int \<Rightarrow> int list \<Rightarrow> int" where
  "autoincrement seq ids = fold max ids seq + 1"

text \<open>\<^verbatim>\<open>CREATE TABLE IF NOT EXISTS\<close>: an existing table is left as it is.\<close>

definition create_Suppliers :: "db statement" where
  "create_Suppliers =
     \<lparr>prepare = (\<lambda>d. True), parameters = [],
      step = (\<lambda>d. case Suppliers d of
                     None \<Rightarrow> Some (d\<lparr>Suppliers := Some []\<rparr>)
                   | Some _ \<Rightarrow> Some d)\<rparr>"

definition create_Products :: "db statement" where
  "create_Products =
     \<lparr>prepare = (\<lambda>d. True), parameters = [],
      step = (\<lambda>d. case Products d of
                     None \<Rightarrow> Some (d\<lparr>Products := Some []\<rparr>)
                   | Some _ \<Rightarrow> Some d)\<rparr>"

definition create_Transactions :: "db statement" where
  "create_Transactions =
     \<lparr>prepare = (\<lambda>d. True), parameters = [],
      step = (\<lambda>d. case Transactions d of
                     None \<Rightarrow> Some (d\<lparr>Transactions := Some []\<rparr>)
                   | Some _ \<Rightarrow> Some d)\<rparr>"

text \<open>\<^verbatim>\<open>INSERT INTO Suppliers (name, contact) VALUES (?, ?)\<close>\<close>

definition insert_supplier :: "string \<Rightarrow> string option \<Rightarrow> db statement" where
  "insert_supplier name contact =
     \<lparr>prepare = (\<lambda>d. Suppliers d \<noteq> None), parameters = [],
      step = (\<lambda>d.
        let rows = suppliers_of d;
            i = autoincrement (seq_Suppliers d) (map s_supplier_id rows) in
        if int64 i
        then Some (d\<lparr>Suppliers :=
                  Some (rows @ [\<lparr>s_supplier_id = i, s_name = name, s_contact = contact\<rparr>]),
                seq_Suppliers := i\<rparr>)
        else None)\<rparr>"

text \<open>\<^verbatim>\<open>SELECT supplier_id, name, contact FROM Suppliers ORDER BY supplier_id\<close>\<close>

definition select_suppliers :: "supplier list statement" where
  "select_suppliers =
     \<lparr>prepare = (\<lambda>d. Suppliers d \<noteq> None), parameters = [],
      step = (\<lambda>d. Some (sort_key s_supplier_id (suppliers_of d)))\<rparr>"

text \<open>\<^verbatim>\<open>SELECT 1 FROM Suppliers WHERE supplier_id=?\<close>, then \<^verbatim>\<open>fetchone\<close>\<close>

definition select_supplier_1 :: "int \<Rightarrow> unit option statement" where
  "select_supplier_1 sid =
     \<lparr>prepare = (\<lambda>d. Suppliers d \<noteq> None), parameters = [sid],
      step = (\<lambda>d. Some (map_option (\<lambda>_. ())
                            (find (\<lambda>s. s_supplier_id s = sid) (suppliers_of d))))\<rparr>"

text \<open>
  \<^verbatim>\<open>INSERT INTO Products (name, category, quantity, price, supplier_id) VALUES (?, ?, ?, ?, ?)\<close>,
  with \<^verbatim>\<open>price REAL NOT NULL\<close> and the foreign key \<^verbatim>\<open>supplier_id REFERENCES Suppliers\<close>
  enforced.
\<close>

definition insert_product ::
  "string \<Rightarrow> string option \<Rightarrow> int \<Rightarrow> pyfloat \<Rightarrow> int option \<Rightarrow> db statement" where
  "insert_product name category quantity price supplier_id =
     \<lparr>prepare = (\<lambda>d. Products d \<noteq> None \<and> Suppliers d \<noteq> None),
      parameters = quantity # (case supplier_id of None \<Rightarrow> [] | Some sid \<Rightarrow> [sid]),
      step = (\<lambda>d.
        if price = NaN then None
        else if (case supplier_id of
                   None \<Rightarrow> True
                 | Some sid \<Rightarrow> sid \<in> set (map s_supplier_id (suppliers_of d)))
        then
          let rows = products_of d;
              i = autoincrement (seq_Products d) (map p_product_id rows) in
          if int64 i
          then Some (d\<lparr>Products :=
                    Some (rows @ [\<lparr>p_product_id = i, p_name = name, p_category = category,
                                   p_quantity = INTEGER quantity, p_price = price,
                                   p_supplier_id = supplier_id\<rparr>]),
                  seq_Products := i\<rparr>)
          else None
        else None)\<rparr>"

text \<open>A left outer join: every left row appears, with each right row that matches it.\<close>

definition left_join :: "('a \<Rightarrow> 'b \<Rightarrow> bool) \<Rightarrow> 'a list \<Rightarrow> 'b list \<Rightarrow> ('a \<times> 'b option) list" where
  "left_join on xs ys =
     concat (map (\<lambda>x. case filter (on x) ys of
                         [] \<Rightarrow> [(x, None)]
                       | ms \<Rightarrow> map (\<lambda>y. (x, Some y)) ms) xs)"

text \<open>
  \<^verbatim>\<open>SELECT ... FROM Products p LEFT JOIN Suppliers s ON p.supplier_id = s.supplier_id
  ORDER BY p.product_id\<close>
\<close>

definition select_products :: "(product \<times> supplier option) list statement" where
  "select_products =
     \<lparr>prepare = (\<lambda>d. Products d \<noteq> None \<and> Suppliers d \<noteq> None), parameters = [],
      step = (\<lambda>d.
        Some (sort_key (\<lambda>r. p_product_id (fst r))
                (left_join (\<lambda>p s. p_supplier_id p = Some (s_supplier_id s))
                   (products_of d) (suppliers_of d))))\<rparr>"

text \<open>\<^verbatim>\<open>SELECT * FROM Products WHERE product_id=?\<close>, then \<^verbatim>\<open>fetchone\<close>\<close>

definition select_product :: "int \<Rightarrow> product option statement" where
  "select_product pid =
     \<lparr>prepare = (\<lambda>d. Products d \<noteq> None), parameters = [pid],
      step = (\<lambda>d. Some (find (\<lambda>p. p_product_id p = pid) (products_of d)))\<rparr>"

text \<open>\<^verbatim>\<open>UPDATE Products SET quantity = quantity + ? WHERE product_id=?\<close>\<close>

definition update_quantity_plus :: "int \<Rightarrow> int \<Rightarrow> db statement" where
  "update_quantity_plus qty pid =
     \<lparr>prepare = (\<lambda>d. Products d \<noteq> None), parameters = [qty, pid],
      step = (\<lambda>d.
        Some (d\<lparr>Products :=
                  Some (map (\<lambda>p. if p_product_id p = pid
                                  then p\<lparr>p_quantity := sql_add (p_quantity p) qty\<rparr> else p)
                          (products_of d))\<rparr>))\<rparr>"

text \<open>\<^verbatim>\<open>UPDATE Products SET quantity = quantity - ? WHERE product_id=?\<close>\<close>

definition update_quantity_minus :: "int \<Rightarrow> int \<Rightarrow> db statement" where
  "update_quantity_minus qty pid =
     \<lparr>prepare = (\<lambda>d. Products d \<noteq> None), parameters = [qty, pid],
      step = (\<lambda>d.
        Some (d\<lparr>Products :=
                  Some (map (\<lambda>p. if p_product_id p = pid
                                  then p\<lparr>p_quantity := sql_sub (p_quantity p) qty\<rparr> else p)
                          (products_of d))\<rparr>))\<rparr>"

text \<open>
  \<^verbatim>\<open>INSERT INTO Transactions (product_id, trans_type, quantity, date) VALUES (?, 'IN', ?, ?)\<close>
  and the same with \<^verbatim>\<open>'OUT'\<close>, with the foreign key \<^verbatim>\<open>product_id REFERENCES Products\<close>
  enforced.
\<close>

definition insert_transaction :: "int \<Rightarrow> trans_type \<Rightarrow> int \<Rightarrow> string \<Rightarrow> db statement" where
  "insert_transaction pid ty qty date =
     \<lparr>prepare = (\<lambda>d. Transactions d \<noteq> None \<and> Products d \<noteq> None),
      parameters = [pid, qty],
      step = (\<lambda>d.
        if pid \<in> set (map p_product_id (products_of d))
        then
          let rows = transactions_of d;
              i = autoincrement (seq_Transactions d) (map t_trans_id rows) in
          if int64 i
          then Some (d\<lparr>Transactions :=
                    Some (rows @ [\<lparr>t_trans_id = i, t_product_id = pid, t_trans_type = ty,
                                   t_quantity = qty, t_date = date\<rparr>]),
                  seq_Transactions := i\<rparr>)
          else None
        else None)\<rparr>"

text \<open>
  \<^verbatim>\<open>SELECT product_id, name, quantity FROM Products WHERE quantity <= ? ORDER BY quantity\<close>.
  SQLite compares an \<^verbatim>\<open>INTEGER\<close> and a \<^verbatim>\<open>REAL\<close> by their values.
\<close>

definition select_low_stock :: "int \<Rightarrow> (int \<times> string \<times> number) list statement" where
  "select_low_stock threshold =
     \<lparr>prepare = (\<lambda>d. Products d \<noteq> None), parameters = [threshold],
      step = (\<lambda>d.
        Some (map (\<lambda>p. (p_product_id p, p_name p, p_quantity p))
                (sort_key (\<lambda>p. value_of (p_quantity p))
                   (filter (\<lambda>p. value_of (p_quantity p) \<le> threshold) (products_of d)))))\<rparr>"

text \<open>
  \<^verbatim>\<open>SELECT t.trans_id, t.product_id, p.name AS product_name, t.trans_type, t.quantity, t.date
  FROM Transactions t LEFT JOIN Products p ON t.product_id = p.product_id
  ORDER BY t.date DESC, t.trans_id DESC\<close>.
  The date is text and is compared as text, character by character.
\<close>

definition select_transactions :: "(transaction \<times> string option) list statement" where
  "select_transactions =
     \<lparr>prepare = (\<lambda>d. Transactions d \<noteq> None \<and> Products d \<noteq> None), parameters = [],
      step = (\<lambda>d.
        Some (rev (sort_key (\<lambda>r. (t_date (fst r), t_trans_id (fst r)))
                (map (\<lambda>(t, p). (t, map_option p_name p))
                   (left_join (\<lambda>t p. t_product_id t = p_product_id p)
                      (transactions_of d) (products_of d))))))\<rparr>"

section \<open>The connection\<close>

text \<open>
  A connection of Python's \<^verbatim>\<open>sqlite3\<close> sees the file together with its own uncommitted
  changes. A data statement (\<^verbatim>\<open>INSERT\<close>, \<^verbatim>\<open>UPDATE\<close>) changes only the connection's view
  until \<^verbatim>\<open>commit\<close>; \<^verbatim>\<open>close\<close> without \<^verbatim>\<open>commit\<close> loses the uncommitted changes. A schema
  statement (\<^verbatim>\<open>CREATE TABLE\<close>) opens no transaction and is written at once.

  A statement or a commit can also fail for reasons outside the data (the disk, a lock): the
  flag \<open>fault\<close> says that running this call raises \<^verbatim>\<open>sqlite3.Error\<close>. Every operation below
  takes \<open>fails :: nat \<Rightarrow> bool\<close>, which tells for the k-th call inside its \<^verbatim>\<open>try\<close> block
  whether that call raises.
\<close>

datatype 'a raised = Returned 'a | sqlite3_Error | OverflowError

record conn =
  committed :: db
  working :: db

definition get_connection :: "db \<Rightarrow> conn" where
  "get_connection d = \<lparr>committed = d, working = d\<rparr>"

definition execute :: "bool \<Rightarrow> db statement \<Rightarrow> conn \<Rightarrow> conn raised" where
  "execute fault stmt c =
     (if \<not> prepare stmt (working c) then sqlite3_Error
      else if \<not> list_all int64 (parameters stmt) then OverflowError
      else if fault then sqlite3_Error
      else (case step stmt (working c) of
              None \<Rightarrow> sqlite3_Error
            | Some d \<Rightarrow> Returned (c\<lparr>working := d\<rparr>)))"

definition execute_schema :: "bool \<Rightarrow> db statement \<Rightarrow> conn \<Rightarrow> conn raised" where
  "execute_schema fault stmt c =
     (if \<not> prepare stmt (working c) then sqlite3_Error
      else if \<not> list_all int64 (parameters stmt) then OverflowError
      else if fault then sqlite3_Error
      else (case step stmt (working c) of
              None \<Rightarrow> sqlite3_Error
            | Some d \<Rightarrow> Returned \<lparr>committed = d, working = d\<rparr>))"

definition fetch :: "'a statement \<Rightarrow> conn \<Rightarrow> 'a raised" where
  "fetch query c =
     (if \<not> prepare query (working c) then sqlite3_Error
      else if \<not> list_all int64 (parameters query) then OverflowError
      else (case step query (working c) of
              None \<Rightarrow> sqlite3_Error
            | Some rows \<Rightarrow> Returned rows))"

definition commit :: "bool \<Rightarrow> conn \<Rightarrow> conn option" where
  "commit fault c = (if fault then None else Some (c\<lparr>committed := working c\<rparr>))"

definition close :: "conn \<Rightarrow> db" where
  "close c = committed c"

section \<open>The operations\<close>

text \<open>
  Every function of the source prints and returns nothing; the model returns the database
  file after the call together with the message that ends the call. \<open>Uncaught\<close> is an
  exception that no \<^verbatim>\<open>except\<close> clause of the function catches: an \<^verbatim>\<open>OverflowError\<close>
  anywhere (every handler is \<^verbatim>\<open>except sqlite3.Error\<close>), and any error in \<^verbatim>\<open>get_product\<close>
  and \<^verbatim>\<open>supplier_exists\<close>, which have no handler. It leaves the function after the
  \<^verbatim>\<open>finally\<close> clause has closed the connection and, under \<^verbatim>\<open>main_menu\<close>, ends the process.
  \<open>Nothing\<close> is a normal return without a message.

  The arguments are what the prompts return: \<^verbatim>\<open>input(...).strip()\<close> for text, the float of
  \<^verbatim>\<open>input_float\<close> and the int of \<^verbatim>\<open>input_int\<close>, which is \<open>None\<close> only where the prompt
  allows an empty answer. Queries are taken to raise only for a missing table and for a
  parameter outside 64 bits.
\<close>

datatype msg =
    Nothing
  | Uncaught
  | DB_Error
  | Name_cannot_be_empty
  | Supplier_added string
  | No_suppliers_found
  | Suppliers_listing "supplier list"
  | Product_name_cannot_be_empty
  | Quantity_must_be_0_or_greater
  | Supplier_ID_does_not_exist
  | Product_added string
  | No_products_found
  | Products_listing "(product \<times> supplier option) list"
  | Product_not_found
  | Quantity_must_be_positive
  | Stock_updated int string int
  | Not_enough_stock number
  | Stock_decreased int string int
  | Threshold_must_be_0_or_greater
  | No_low_stock
  | Low_stock_listing "(int \<times> string \<times> number) list"
  | No_transactions_found
  | Transactions_listing "(transaction \<times> string option) list"
  | Goodbye
  | Invalid_choice

text \<open>Python's \<^verbatim>\<open>s or None\<close> on a string.\<close>

definition or_None :: "string \<Rightarrow> string option" where
  "or_None s = (if s = [] then None else Some s)"

definition create_tables :: "(nat \<Rightarrow> bool) \<Rightarrow> db \<Rightarrow> db \<times> msg" where
  "create_tables fails d =
     (let conn = get_connection d in
      case execute_schema (fails 0) create_Suppliers conn of
        OverflowError \<Rightarrow> (close conn, Uncaught)
      | sqlite3_Error \<Rightarrow> (close conn, DB_Error)
      | Returned c1 \<Rightarrow>
      (case execute_schema (fails 1) create_Products c1 of
        OverflowError \<Rightarrow> (close c1, Uncaught)
      | sqlite3_Error \<Rightarrow> (close c1, DB_Error)
      | Returned c2 \<Rightarrow>
      (case execute_schema (fails 2) create_Transactions c2 of
        OverflowError \<Rightarrow> (close c2, Uncaught)
      | sqlite3_Error \<Rightarrow> (close c2, DB_Error)
      | Returned c3 \<Rightarrow>
      (case commit (fails 3) c3 of
        None \<Rightarrow> (close c3, DB_Error)
      | Some c4 \<Rightarrow> (close c4, Nothing)))))"

definition add_supplier :: "(nat \<Rightarrow> bool) \<Rightarrow> string \<Rightarrow> string \<Rightarrow> db \<Rightarrow> db \<times> msg" where
  "add_supplier fails name contact_input d =
     (if name = [] then (d, Name_cannot_be_empty)
      else
        let contact = or_None contact_input;
            conn = get_connection d in
        case execute (fails 0) (insert_supplier name contact) conn of
          OverflowError \<Rightarrow> (close conn, Uncaught)
        | sqlite3_Error \<Rightarrow> (close conn, DB_Error)
        | Returned c1 \<Rightarrow>
        (case commit (fails 1) c1 of
          None \<Rightarrow> (close c1, DB_Error)
        | Some c2 \<Rightarrow> (close c2, Supplier_added name)))"

definition view_suppliers :: "db \<Rightarrow> db \<times> msg" where
  "view_suppliers d =
     (let conn = get_connection d in
      case fetch select_suppliers conn of
        OverflowError \<Rightarrow> (close conn, Uncaught)
      | sqlite3_Error \<Rightarrow> (close conn, DB_Error)
      | Returned rows \<Rightarrow>
          if rows = [] then (close conn, No_suppliers_found)
          else (close conn, Suppliers_listing rows))"

text \<open>
  \<^verbatim>\<open>supplier_exists\<close> has \<^verbatim>\<open>try ... finally\<close> without \<^verbatim>\<open>except\<close>: every error of the query
  leaves the function.
\<close>

definition supplier_exists :: "int option \<Rightarrow> db \<Rightarrow> (db \<times> bool) raised" where
  "supplier_exists supplier_id d =
     (case supplier_id of
        None \<Rightarrow> Returned (d, False)
      | Some sid \<Rightarrow>
          let conn = get_connection d in
          (case fetch (select_supplier_1 sid) conn of
             OverflowError \<Rightarrow> OverflowError
           | sqlite3_Error \<Rightarrow> sqlite3_Error
           | Returned row \<Rightarrow> Returned (close conn, row \<noteq> None)))"

definition add_product ::
  "(nat \<Rightarrow> bool) \<Rightarrow> string \<Rightarrow> string \<Rightarrow> int \<Rightarrow> pyfloat \<Rightarrow> int option \<Rightarrow> db \<Rightarrow> db \<times> msg" where
  "add_product fails name category_input quantity price supplier_id d =
     (if name = [] then (d, Product_name_cannot_be_empty)
      else
        let category = or_None category_input in
        if quantity < 0 then (d, Quantity_must_be_0_or_greater)
        else
          let (d1, _) = view_suppliers d in
          case (if supplier_id \<noteq> None
                then map_raised (\<lambda>(d2, ex). (d2, \<not> ex)) (supplier_exists supplier_id d1)
                else Returned (d1, False)) of
            OverflowError \<Rightarrow> (d1, Uncaught)
          | sqlite3_Error \<Rightarrow> (d1, Uncaught)
          | Returned (d2, True) \<Rightarrow> (d2, Supplier_ID_does_not_exist)
          | Returned (d2, False) \<Rightarrow>
              let conn = get_connection d2 in
              (case execute (fails 0)
                      (insert_product name category quantity price supplier_id) conn of
                 OverflowError \<Rightarrow> (close conn, Uncaught)
               | sqlite3_Error \<Rightarrow> (close conn, DB_Error)
               | Returned c1 \<Rightarrow>
               (case commit (fails 1) c1 of
                 None \<Rightarrow> (close c1, DB_Error)
               | Some c2 \<Rightarrow> (close c2, Product_added name))))"

definition view_products :: "db \<Rightarrow> db \<times> msg" where
  "view_products d =
     (let conn = get_connection d in
      case fetch select_products conn of
        OverflowError \<Rightarrow> (close conn, Uncaught)
      | sqlite3_Error \<Rightarrow> (close conn, DB_Error)
      | Returned rows \<Rightarrow>
          if rows = [] then (close conn, No_products_found)
          else (close conn, Products_listing rows))"

text \<open>\<^verbatim>\<open>get_product\<close> has no \<^verbatim>\<open>except\<close> either.\<close>

definition get_product :: "int \<Rightarrow> db \<Rightarrow> (db \<times> product option) raised" where
  "get_product product_id d =
     (let conn = get_connection d in
      case fetch (select_product product_id) conn of
        OverflowError \<Rightarrow> OverflowError
      | sqlite3_Error \<Rightarrow> sqlite3_Error
      | Returned row \<Rightarrow> Returned (close conn, row))"

text \<open>
  \<open>now\<close> is \<^verbatim>\<open>datetime.now().strftime("%Y-%m-%d %H:%M:%S")\<close>, the text of the clock when
  the insert is issued. Python compares the quantity of the row with \<^verbatim>\<open>qty\<close> by value,
  whether the row holds an int or a float.
\<close>

definition stock_in :: "(nat \<Rightarrow> bool) \<Rightarrow> string \<Rightarrow> int \<Rightarrow> int \<Rightarrow> db \<Rightarrow> db \<times> msg" where
  "stock_in fails now product_id qty d =
     (let (d1, _) = view_products d in
      case get_product product_id d1 of
        OverflowError \<Rightarrow> (d1, Uncaught)
      | sqlite3_Error \<Rightarrow> (d1, Uncaught)
      | Returned (d2, None) \<Rightarrow> (d2, Product_not_found)
      | Returned (d2, Some product) \<Rightarrow>
          if qty \<le> 0 then (d2, Quantity_must_be_positive)
          else
            let conn = get_connection d2 in
            (case execute (fails 0) (update_quantity_plus qty product_id) conn of
               OverflowError \<Rightarrow> (close conn, Uncaught)
             | sqlite3_Error \<Rightarrow> (close conn, DB_Error)
             | Returned c1 \<Rightarrow>
             (case execute (fails 1) (insert_transaction product_id IN qty now) c1 of
               OverflowError \<Rightarrow> (close c1, Uncaught)
             | sqlite3_Error \<Rightarrow> (close c1, DB_Error)
             | Returned c2 \<Rightarrow>
             (case commit (fails 2) c2 of
               None \<Rightarrow> (close c2, DB_Error)
             | Some c3 \<Rightarrow> (close c3, Stock_updated qty (p_name product) product_id)))))"

definition stock_out :: "(nat \<Rightarrow> bool) \<Rightarrow> string \<Rightarrow> int \<Rightarrow> int \<Rightarrow> db \<Rightarrow> db \<times> msg" where
  "stock_out fails now product_id qty d =
     (let (d1, _) = view_products d in
      case get_product product_id d1 of
        OverflowError \<Rightarrow> (d1, Uncaught)
      | sqlite3_Error \<Rightarrow> (d1, Uncaught)
      | Returned (d2, None) \<Rightarrow> (d2, Product_not_found)
      | Returned (d2, Some product) \<Rightarrow>
          if qty \<le> 0 then (d2, Quantity_must_be_positive)
          else if value_of (p_quantity product) < qty
            then (d2, Not_enough_stock (p_quantity product))
          else
            let conn = get_connection d2 in
            (case execute (fails 0) (update_quantity_minus qty product_id) conn of
               OverflowError \<Rightarrow> (close conn, Uncaught)
             | sqlite3_Error \<Rightarrow> (close conn, DB_Error)
             | Returned c1 \<Rightarrow>
             (case execute (fails 1) (insert_transaction product_id OUT qty now) c1 of
               OverflowError \<Rightarrow> (close c1, Uncaught)
             | sqlite3_Error \<Rightarrow> (close c1, DB_Error)
             | Returned c2 \<Rightarrow>
             (case commit (fails 2) c2 of
               None \<Rightarrow> (close c2, DB_Error)
             | Some c3 \<Rightarrow> (close c3, Stock_decreased qty (p_name product) product_id)))))"

definition low_stock_report :: "int \<Rightarrow> db \<Rightarrow> db \<times> msg" where
  "low_stock_report threshold d =
     (if threshold < 0 then (d, Threshold_must_be_0_or_greater)
      else
        let conn = get_connection d in
        case fetch (select_low_stock threshold) conn of
          OverflowError \<Rightarrow> (close conn, Uncaught)
        | sqlite3_Error \<Rightarrow> (close conn, DB_Error)
        | Returned rows \<Rightarrow>
            if rows = [] then (close conn, No_low_stock)
            else (close conn, Low_stock_listing rows))"

definition transaction_report :: "db \<Rightarrow> db \<times> msg" where
  "transaction_report d =
     (let conn = get_connection d in
      case fetch select_transactions conn of
        OverflowError \<Rightarrow> (close conn, Uncaught)
      | sqlite3_Error \<Rightarrow> (close conn, DB_Error)
      | Returned rows \<Rightarrow>
          if rows = [] then (close conn, No_transactions_found)
          else (close conn, Transactions_listing rows))"

subsection \<open>The menu\<close>

text \<open>
  One turn of the loop of \<^verbatim>\<open>main_menu\<close> is a choice together with the answers to the prompts
  of the chosen action. \<open>Choice_9\<close> leaves the loop, \<open>Choice_other\<close> is any text that is not
  a key of \<^verbatim>\<open>actions\<close>. The loop ends with \<open>Uncaught\<close> when an action raises or when the
  input is exhausted (\<^verbatim>\<open>EOFError\<close>).
\<close>

datatype choice =
    Choice_1 string string
  | Choice_2
  | Choice_3 string string int pyfloat "int option"
  | Choice_4
  | Choice_5 string int int
  | Choice_6 string int int
  | Choice_7 int
  | Choice_8
  | Choice_9
  | Choice_other

fun actions :: "(nat \<Rightarrow> bool) \<Rightarrow> choice \<Rightarrow> db \<Rightarrow> db \<times> msg" where
  "actions fails (Choice_1 name contact) d = add_supplier fails name contact d"
| "actions fails Choice_2 d = view_suppliers d"
| "actions fails (Choice_3 name category quantity price supplier_id) d =
     add_product fails name category quantity price supplier_id d"
| "actions fails Choice_4 d = view_products d"
| "actions fails (Choice_5 now product_id qty) d = stock_in fails now product_id qty d"
| "actions fails (Choice_6 now product_id qty) d = stock_out fails now product_id qty d"
| "actions fails (Choice_7 threshold) d = low_stock_report threshold d"
| "actions fails Choice_8 d = transaction_report d"
| "actions fails Choice_9 d = (d, Goodbye)"
| "actions fails Choice_other d = (d, Invalid_choice)"

fun menu_loop :: "((nat \<Rightarrow> bool) \<times> choice) list \<Rightarrow> db \<Rightarrow> db \<times> msg list" where
  "menu_loop [] d = (d, [Uncaught])"
| "menu_loop ((fails, c) # rest) d =
     (if c = Choice_9 then (d, [Goodbye])
      else
        let (d1, m) = actions fails c d in
        if m = Uncaught then (d1, [m])
        else let (d2, ms) = menu_loop rest d1 in (d2, m # ms))"

definition main_menu ::
  "(nat \<Rightarrow> bool) \<Rightarrow> ((nat \<Rightarrow> bool) \<times> choice) list \<Rightarrow> db \<Rightarrow> db \<times> msg list" where
  "main_menu fails0 inputs d =
     (let (d0, m0) = create_tables fails0 d;
          (d1, ms) = menu_loop inputs d0
      in (d1, m0 # ms))"

section \<open>Properties of a database and of a result\<close>

text \<open>No call fails in the database.\<close>

definition no_fault :: "nat \<Rightarrow> bool" where
  "no_fault k = False"

text \<open>
  A stored quantity that is not negative: an \<^verbatim>\<open>INTEGER\<close> from 0 within 64 bits, or a
  \<^verbatim>\<open>REAL\<close> of at least \<open>2 ^ 63\<close> (a smaller one is stored as an \<^verbatim>\<open>INTEGER\<close>).
\<close>

definition stored_nonneg :: "number \<Rightarrow> bool" where
  "stored_nonneg v = (case v of INTEGER i \<Rightarrow> 0 \<le> i \<and> i < 2 ^ 63 | REAL r \<Rightarrow> 2 ^ 63 \<le> r)"

definition stored_integer :: "number \<Rightarrow> bool" where
  "stored_integer v = (case v of INTEGER i \<Rightarrow> 0 \<le> i \<and> i < 2 ^ 63 | REAL r \<Rightarrow> False)"

definition quantities_nonneg :: "db \<Rightarrow> bool" where
  "quantities_nonneg d = list_all (\<lambda>p. stored_nonneg (p_quantity p)) (products_of d)"

definition quantities_integer :: "db \<Rightarrow> bool" where
  "quantities_integer d = list_all (\<lambda>p. stored_integer (p_quantity p)) (products_of d)"

text \<open>
  \<^verbatim>\<open>product_id INTEGER PRIMARY KEY\<close>: SQLite keeps the ids of the rows of a table distinct.
\<close>

definition product_ids_unique :: "db \<Rightarrow> bool" where
  "product_ids_unique d = distinct (map p_product_id (products_of d))"

definition stock_inv :: "db \<Rightarrow> bool" where
  "stock_inv d = (product_ids_unique d \<and> quantities_nonneg d)"

text \<open>
  The messages with which \<^verbatim>\<open>stock_in\<close> and \<^verbatim>\<open>stock_out\<close> turn an input down, and those
  that report the stock as changed.
\<close>

fun rejected :: "msg \<Rightarrow> bool" where
  "rejected Product_not_found = True"
| "rejected Quantity_must_be_positive = True"
| "rejected (Not_enough_stock _) = True"
| "rejected _ = False"

fun succeeded :: "msg \<Rightarrow> bool" where
  "succeeded (Stock_updated _ _ _) = True"
| "succeeded (Stock_decreased _ _ _) = True"
| "succeeded _ = False"

text \<open>The rows that the reports list.\<close>

fun low_stock_rows :: "msg \<Rightarrow> (int \<times> string \<times> number) list" where
  "low_stock_rows (Low_stock_listing rows) = rows"
| "low_stock_rows _ = []"

fun transaction_rows :: "msg \<Rightarrow> (transaction \<times> string option) list" where
  "transaction_rows (Transactions_listing rows) = rows"
| "transaction_rows _ = []"

text \<open>A database with one supplier, two products and three transactions, for the examples.\<close>

definition sample_products :: "product list" where
  "sample_products =
     [\<lparr>p_product_id = 1, p_name = ''Bolt'', p_category = Some ''hw'',
       p_quantity = INTEGER 10, p_price = Float (5 / 2), p_supplier_id = Some 1\<rparr>,
      \<lparr>p_product_id = 2, p_name = ''Nut'', p_category = None,
       p_quantity = INTEGER 3, p_price = Float 1, p_supplier_id = None\<rparr>]"

definition sample_transactions :: "transaction list" where
  "sample_transactions =
     [\<lparr>t_trans_id = 1, t_product_id = 2, t_trans_type = IN,
       t_quantity = 3, t_date = ''2026-01-01 10:00:00''\<rparr>,
      \<lparr>t_trans_id = 2, t_product_id = 1, t_trans_type = IN,
       t_quantity = 10, t_date = ''2026-01-01 10:00:00''\<rparr>,
      \<lparr>t_trans_id = 3, t_product_id = 1, t_trans_type = OUT,
       t_quantity = 2, t_date = ''2025-12-31 23:59:59''\<rparr>]"

definition sample_db :: db where
  "sample_db =
     \<lparr>Suppliers = Some [\<lparr>s_supplier_id = 1, s_name = ''Acme'', s_contact = None\<rparr>],
      Products = Some sample_products,
      Transactions = Some sample_transactions,
      seq_Suppliers = 1, seq_Products = 2, seq_Transactions = 3\<rparr>"

text \<open>
  The database after \<^verbatim>\<open>create_tables\<close> on a new file and one \<^verbatim>\<open>add_product\<close> with the
  largest quantity that fits in 64 bits.
\<close>

definition full_db :: db where
  "full_db =
     \<lparr>Suppliers = Some [],
      Products = Some [\<lparr>p_product_id = 1, p_name = ''Bolt'', p_category = None,
                        p_quantity = INTEGER 9223372036854775807, p_price = Float 1,
                        p_supplier_id = None\<rparr>],
      Transactions = Some [],
      seq_Suppliers = 0, seq_Products = 1, seq_Transactions = 0\<rparr>"

section \<open>What each call of the connection computes\<close>

lemma close_get_connection: "close (get_connection d) = d"
  by (simp add: close_def get_connection_def)

lemma fetch_select_suppliers:
  "fetch select_suppliers c =
     (if Suppliers (working c) = None then sqlite3_Error
      else Returned (sort_key s_supplier_id (suppliers_of (working c))))"
  by (simp add: fetch_def select_suppliers_def)

lemma fetch_select_supplier_1:
  "fetch (select_supplier_1 sid) c =
     (if Suppliers (working c) = None then sqlite3_Error
      else if \<not> int64 sid then OverflowError
      else Returned (map_option (\<lambda>_. ())
             (find (\<lambda>s. s_supplier_id s = sid) (suppliers_of (working c)))))"
  by (simp add: fetch_def select_supplier_1_def)

lemma fetch_select_products:
  "fetch select_products c =
     (if Products (working c) = None \<or> Suppliers (working c) = None then sqlite3_Error
      else Returned (sort_key (\<lambda>r. p_product_id (fst r))
                (left_join (\<lambda>p s. p_supplier_id p = Some (s_supplier_id s))
                   (products_of (working c)) (suppliers_of (working c)))))"
  by (simp add: fetch_def select_products_def)

lemma fetch_select_product:
  "fetch (select_product pid) c =
     (if Products (working c) = None then sqlite3_Error
      else if \<not> int64 pid then OverflowError
      else Returned (find (\<lambda>p. p_product_id p = pid) (products_of (working c))))"
  by (simp add: fetch_def select_product_def)

lemma fetch_select_low_stock:
  "fetch (select_low_stock threshold) c =
     (if Products (working c) = None then sqlite3_Error
      else if \<not> int64 threshold then OverflowError
      else Returned (map (\<lambda>p. (p_product_id p, p_name p, p_quantity p))
                (sort_key (\<lambda>p. value_of (p_quantity p))
                   (filter (\<lambda>p. value_of (p_quantity p) \<le> threshold)
                      (products_of (working c))))))"
  by (simp add: fetch_def select_low_stock_def)

lemma fetch_select_transactions:
  "fetch select_transactions c =
     (if Transactions (working c) = None \<or> Products (working c) = None then sqlite3_Error
      else Returned (rev (sort_key (\<lambda>r. (t_date (fst r), t_trans_id (fst r)))
                (map (\<lambda>(t, p). (t, map_option p_name p))
                   (left_join (\<lambda>t p. t_product_id t = p_product_id p)
                      (transactions_of (working c)) (products_of (working c)))))))"
  by (simp add: fetch_def select_transactions_def)

lemma execute_insert_supplier:
  "execute fault (insert_supplier name contact) c =
     (if Suppliers (working c) = None \<or> fault
           \<or> \<not> int64 (autoincrement (seq_Suppliers (working c))
                          (map s_supplier_id (suppliers_of (working c))))
        then sqlite3_Error
      else Returned (c\<lparr>working := (working c)
             \<lparr>Suppliers := Some (suppliers_of (working c) @
                 [\<lparr>s_supplier_id = autoincrement (seq_Suppliers (working c))
                                      (map s_supplier_id (suppliers_of (working c))),
                   s_name = name, s_contact = contact\<rparr>]),
              seq_Suppliers := autoincrement (seq_Suppliers (working c))
                                      (map s_supplier_id (suppliers_of (working c)))\<rparr>\<rparr>))"
  by (simp add: execute_def insert_supplier_def Let_def)

lemma execute_insert_product:
  "execute fault (insert_product name category quantity price supplier_id) c =
     (if Products (working c) = None \<or> Suppliers (working c) = None then sqlite3_Error
      else if \<not> (int64 quantity \<and> (\<forall>sid. supplier_id = Some sid \<longrightarrow> int64 sid))
        then OverflowError
      else if fault \<or> price = NaN
              \<or> (\<exists>sid. supplier_id = Some sid
                    \<and> sid \<notin> set (map s_supplier_id (suppliers_of (working c))))
              \<or> \<not> int64 (autoincrement (seq_Products (working c))
                             (map p_product_id (products_of (working c))))
        then sqlite3_Error
      else Returned (c\<lparr>working := (working c)
             \<lparr>Products := Some (products_of (working c) @
                 [\<lparr>p_product_id = autoincrement (seq_Products (working c))
                                      (map p_product_id (products_of (working c))),
                   p_name = name, p_category = category,
                   p_quantity = INTEGER quantity,
                   p_price = price, p_supplier_id = supplier_id\<rparr>]),
              seq_Products := autoincrement (seq_Products (working c))
                                      (map p_product_id (products_of (working c)))\<rparr>\<rparr>))"
  by (cases supplier_id) (simp_all add: execute_def insert_product_def Let_def)

lemma execute_update_quantity_plus:
  "execute fault (update_quantity_plus qty pid) c =
     (if Products (working c) = None then sqlite3_Error
      else if \<not> (int64 qty \<and> int64 pid) then OverflowError
      else if fault then sqlite3_Error
      else Returned (c\<lparr>working := (working c)
             \<lparr>Products := Some (map (\<lambda>p. if p_product_id p = pid
                                  then p\<lparr>p_quantity := sql_add (p_quantity p) qty\<rparr> else p)
                          (products_of (working c)))\<rparr>\<rparr>))"
  by (simp add: execute_def update_quantity_plus_def)

lemma execute_update_quantity_minus:
  "execute fault (update_quantity_minus qty pid) c =
     (if Products (working c) = None then sqlite3_Error
      else if \<not> (int64 qty \<and> int64 pid) then OverflowError
      else if fault then sqlite3_Error
      else Returned (c\<lparr>working := (working c)
             \<lparr>Products := Some (map (\<lambda>p. if p_product_id p = pid
                                  then p\<lparr>p_quantity := sql_sub (p_quantity p) qty\<rparr> else p)
                          (products_of (working c)))\<rparr>\<rparr>))"
  by (simp add: execute_def update_quantity_minus_def)

lemma execute_insert_transaction:
  "execute fault (insert_transaction pid ty qty date) c =
     (if Transactions (working c) = None \<or> Products (working c) = None then sqlite3_Error
      else if \<not> (int64 pid \<and> int64 qty) then OverflowError
      else if fault \<or> pid \<notin> set (map p_product_id (products_of (working c)))
              \<or> \<not> int64 (autoincrement (seq_Transactions (working c))
                             (map t_trans_id (transactions_of (working c))))
        then sqlite3_Error
      else Returned (c\<lparr>working := (working c)
             \<lparr>Transactions := Some (transactions_of (working c) @
                 [\<lparr>t_trans_id = autoincrement (seq_Transactions (working c))
                                      (map t_trans_id (transactions_of (working c))),
                   t_product_id = pid, t_trans_type = ty, t_quantity = qty,
                   t_date = date\<rparr>]),
              seq_Transactions := autoincrement (seq_Transactions (working c))
                                      (map t_trans_id (transactions_of (working c)))\<rparr>\<rparr>))"
  by (simp add: execute_def insert_transaction_def Let_def)

lemma execute_schema_create:
  "execute_schema fault create_Suppliers c =
     (if fault then sqlite3_Error
      else Returned \<lparr>committed = (working c)\<lparr>Suppliers := Some (suppliers_of (working c))\<rparr>,
                     working = (working c)\<lparr>Suppliers := Some (suppliers_of (working c))\<rparr>\<rparr>)"
  "execute_schema fault create_Products c =
     (if fault then sqlite3_Error
      else Returned \<lparr>committed = (working c)\<lparr>Products := Some (products_of (working c))\<rparr>,
                     working = (working c)\<lparr>Products := Some (products_of (working c))\<rparr>\<rparr>)"
  "execute_schema fault create_Transactions c =
     (if fault then sqlite3_Error
      else Returned
        \<lparr>committed = (working c)\<lparr>Transactions := Some (transactions_of (working c))\<rparr>,
         working = (working c)\<lparr>Transactions := Some (transactions_of (working c))\<rparr>\<rparr>)"
  by (simp_all add: execute_schema_def create_Suppliers_def create_Products_def
      create_Transactions_def suppliers_of_def products_of_def transactions_of_def
      split: option.splits)

section \<open>What each operation computes\<close>

text \<open>
  A connection that is closed without a commit leaves the file as it was, so the views and
  the reports change nothing.
\<close>

lemma view_suppliers_fst: "fst (view_suppliers d) = d"
  by (simp add: view_suppliers_def fetch_select_suppliers close_def get_connection_def Let_def)

lemma view_products_fst: "fst (view_products d) = d"
  by (simp add: view_products_def fetch_select_products close_def get_connection_def Let_def)

lemma low_stock_report_fst: "fst (low_stock_report t d) = d"
  by (simp add: low_stock_report_def fetch_select_low_stock close_def get_connection_def Let_def)

lemma transaction_report_fst: "fst (transaction_report d) = d"
  by (simp add: transaction_report_def fetch_select_transactions close_def get_connection_def Let_def)

lemma get_product_eq:
  "get_product pid d =
     (if Products d = None then sqlite3_Error
      else if \<not> int64 pid then OverflowError
      else Returned (d, find (\<lambda>p. p_product_id p = pid) (products_of d)))"
  by (simp add: get_product_def fetch_select_product close_def get_connection_def Let_def)

lemma supplier_exists_eq:
  "supplier_exists (Some sid) d =
     (if Suppliers d = None then sqlite3_Error
      else if \<not> int64 sid then OverflowError
      else Returned (d, sid \<in> set (map s_supplier_id (suppliers_of d))))"
proof -
  have "(find (\<lambda>s. s_supplier_id s = sid) (suppliers_of d) \<noteq> None)
          = (sid \<in> set (map s_supplier_id (suppliers_of d)))"
    by (auto simp: find_None_iff)
  then show ?thesis
    by (simp add: supplier_exists_def fetch_select_supplier_1 get_connection_def close_def
        Let_def)
qed

lemma find_Some_mem: "find P xs = Some x \<Longrightarrow> \<exists>y\<in>set xs. P y"
  by (auto simp: find_Some_iff)

lemma find_Some_id_mem:
  "find (\<lambda>p. f p = k) xs = Some x \<Longrightarrow> k \<in> set (map f xs)"
  by (auto simp: find_Some_iff)

lemma map_update_ids:
  "map (f \<circ> (\<lambda>p. if f p = k then g p else p)) ps = map f ps"
  if "\<And>p. f (g p) = f p"
  using that by (induction ps) auto

lemma stock_in_eq:
  "stock_in fails now pid qty d =
     (case Products d of
        None \<Rightarrow> (d, Uncaught)
      | Some ps \<Rightarrow>
         if \<not> int64 pid then (d, Uncaught)
         else
         (case find (\<lambda>p. p_product_id p = pid) ps of
            None \<Rightarrow> (d, Product_not_found)
          | Some product \<Rightarrow>
              if qty \<le> 0 then (d, Quantity_must_be_positive)
              else if \<not> int64 qty then (d, Uncaught)
              else if fails 0 \<or> fails 1 \<or> fails 2 \<or> Transactions d = None
                      \<or> \<not> int64 (autoincrement (seq_Transactions d)
                                     (map t_trans_id (transactions_of d)))
                then (d, DB_Error)
              else (d\<lparr>Products := Some (map (\<lambda>p. if p_product_id p = pid
                                   then p\<lparr>p_quantity := sql_add (p_quantity p) qty\<rparr> else p) ps),
                      Transactions := Some (transactions_of d @
                        [\<lparr>t_trans_id = autoincrement (seq_Transactions d)
                                         (map t_trans_id (transactions_of d)),
                          t_product_id = pid, t_trans_type = IN, t_quantity = qty,
                          t_date = now\<rparr>]),
                      seq_Transactions := autoincrement (seq_Transactions d)
                                         (map t_trans_id (transactions_of d))\<rparr>,
                    Stock_updated qty (p_name product) pid)))"
proof (cases "Products d")
  case None
  then show ?thesis
    by (simp add: stock_in_def get_product_eq split_beta view_products_fst Let_def)
next
  case (Some ps)
  then have ps: "products_of d = ps" by (simp add: products_of_def)
  show ?thesis
  proof (cases "find (\<lambda>p. p_product_id p = pid) ps")
    case None
    with Some ps show ?thesis
      by (simp add: stock_in_def get_product_eq split_beta view_products_fst Let_def)
  next
    case found: (Some product)
    then have "pid \<in> set (map p_product_id ps)" by (rule find_Some_id_mem)
    then have mem: "pid \<in> p_product_id ` set ps" by simp
    from found have "product \<in> set ps" and "p_product_id product = pid"
      by (auto simp: find_Some_iff)
    then have ids: "pid \<in> (\<lambda>x. p_product_id (if p_product_id x = pid
                 then x\<lparr>p_quantity := sql_add (p_quantity x) qty\<rparr> else x)) ` set ps"
      by (intro image_eqI[where x = product]) simp_all
    from Some ps found mem ids show ?thesis
      by (simp add: stock_in_def get_product_eq split_beta view_products_fst
          execute_update_quantity_plus execute_insert_transaction commit_def close_def
          get_connection_def products_of_def transactions_of_def Let_def)
  qed
qed

lemma stock_out_eq:
  "stock_out fails now pid qty d =
     (case Products d of
        None \<Rightarrow> (d, Uncaught)
      | Some ps \<Rightarrow>
         if \<not> int64 pid then (d, Uncaught)
         else
         (case find (\<lambda>p. p_product_id p = pid) ps of
            None \<Rightarrow> (d, Product_not_found)
          | Some product \<Rightarrow>
              if qty \<le> 0 then (d, Quantity_must_be_positive)
              else if value_of (p_quantity product) < qty
                then (d, Not_enough_stock (p_quantity product))
              else if \<not> int64 qty then (d, Uncaught)
              else if fails 0 \<or> fails 1 \<or> fails 2 \<or> Transactions d = None
                      \<or> \<not> int64 (autoincrement (seq_Transactions d)
                                     (map t_trans_id (transactions_of d)))
                then (d, DB_Error)
              else (d\<lparr>Products := Some (map (\<lambda>p. if p_product_id p = pid
                                   then p\<lparr>p_quantity := sql_sub (p_quantity p) qty\<rparr> else p) ps),
                      Transactions := Some (transactions_of d @
                        [\<lparr>t_trans_id = autoincrement (seq_Transactions d)
                                         (map t_trans_id (transactions_of d)),
                          t_product_id = pid, t_trans_type = OUT, t_quantity = qty,
                          t_date = now\<rparr>]),
                      seq_Transactions := autoincrement (seq_Transactions d)
                                         (map t_trans_id (transactions_of d))\<rparr>,
                    Stock_decreased qty (p_name product) pid)))"
proof (cases "Products d")
  case None
  then show ?thesis
    by (simp add: stock_out_def get_product_eq split_beta view_products_fst Let_def)
next
  case (Some ps)
  then have ps: "products_of d = ps" by (simp add: products_of_def)
  show ?thesis
  proof (cases "find (\<lambda>p. p_product_id p = pid) ps")
    case None
    with Some ps show ?thesis
      by (simp add: stock_out_def get_product_eq split_beta view_products_fst Let_def)
  next
    case found: (Some product)
    then have "pid \<in> set (map p_product_id ps)" by (rule find_Some_id_mem)
    then have mem: "pid \<in> p_product_id ` set ps" by simp
    from found have "product \<in> set ps" and "p_product_id product = pid"
      by (auto simp: find_Some_iff)
    then have ids: "pid \<in> (\<lambda>x. p_product_id (if p_product_id x = pid
                 then x\<lparr>p_quantity := sql_sub (p_quantity x) qty\<rparr> else x)) ` set ps"
      by (intro image_eqI[where x = product]) simp_all
    from Some ps found mem ids show ?thesis
      by (simp add: stock_out_def get_product_eq split_beta view_products_fst
          execute_update_quantity_minus execute_insert_transaction commit_def close_def
          get_connection_def products_of_def transactions_of_def Let_def)
  qed
qed

lemma add_supplier_eq:
  "add_supplier fails name contact d =
     (if name = [] then (d, Name_cannot_be_empty)
      else if fails 0 \<or> fails 1 \<or> Suppliers d = None
              \<or> \<not> int64 (autoincrement (seq_Suppliers d)
                             (map s_supplier_id (suppliers_of d)))
        then (d, DB_Error)
      else (d\<lparr>Suppliers := Some (suppliers_of d @
                 [\<lparr>s_supplier_id = autoincrement (seq_Suppliers d)
                                      (map s_supplier_id (suppliers_of d)),
                   s_name = name, s_contact = or_None contact\<rparr>]),
              seq_Suppliers := autoincrement (seq_Suppliers d)
                                      (map s_supplier_id (suppliers_of d))\<rparr>,
            Supplier_added name))"
  by (simp add: add_supplier_def execute_insert_supplier commit_def close_def
        get_connection_def Let_def)

lemma add_product_eq:
  "add_product fails name category quantity price supplier_id d =
     (if name = [] then (d, Product_name_cannot_be_empty)
      else if quantity < 0 then (d, Quantity_must_be_0_or_greater)
      else if supplier_id \<noteq> None \<and> Suppliers d = None then (d, Uncaught)
      else if (\<exists>sid. supplier_id = Some sid \<and> \<not> int64 sid) then (d, Uncaught)
      else if (\<exists>sid. supplier_id = Some sid \<and> sid \<notin> set (map s_supplier_id (suppliers_of d)))
        then (d, Supplier_ID_does_not_exist)
      else if Products d = None \<or> Suppliers d = None then (d, DB_Error)
      else if \<not> int64 quantity then (d, Uncaught)
      else if fails 0 \<or> fails 1 \<or> price = NaN
              \<or> \<not> int64 (autoincrement (seq_Products d)
                             (map p_product_id (products_of d)))
        then (d, DB_Error)
      else (d\<lparr>Products := Some (products_of d @
                 [\<lparr>p_product_id = autoincrement (seq_Products d)
                                      (map p_product_id (products_of d)),
                   p_name = name, p_category = or_None category,
                   p_quantity = INTEGER quantity,
                   p_price = price, p_supplier_id = supplier_id\<rparr>]),
              seq_Products := autoincrement (seq_Products d)
                                      (map p_product_id (products_of d))\<rparr>,
            Product_added name))"
proof (cases supplier_id)
  case None
  then show ?thesis
    by (simp add: add_product_def split_beta view_suppliers_fst execute_insert_product
        commit_def close_def get_connection_def Let_def)
next
  case (Some sid)
  then show ?thesis
    by (simp add: add_product_def split_beta view_suppliers_fst supplier_exists_eq
        execute_insert_product commit_def close_def get_connection_def Let_def)
qed

lemma create_tables_eq:
  "create_tables fails d =
     (if fails 0 then (d, DB_Error)
      else if fails 1 then (d\<lparr>Suppliers := Some (suppliers_of d)\<rparr>, DB_Error)
      else if fails 2
        then (d\<lparr>Suppliers := Some (suppliers_of d), Products := Some (products_of d)\<rparr>, DB_Error)
      else (d\<lparr>Suppliers := Some (suppliers_of d), Products := Some (products_of d),
              Transactions := Some (transactions_of d)\<rparr>,
            if fails 3 then DB_Error else Nothing))"
  by (simp add: create_tables_def execute_schema_create commit_def close_def get_connection_def
        suppliers_of_def products_of_def transactions_of_def Let_def)

lemma low_stock_report_eq:
  "low_stock_report threshold d =
     (if threshold < 0 then (d, Threshold_must_be_0_or_greater)
      else if Products d = None then (d, DB_Error)
      else if \<not> int64 threshold then (d, Uncaught)
      else
        let rows = map (\<lambda>p. (p_product_id p, p_name p, p_quantity p))
                     (sort_key (\<lambda>p. value_of (p_quantity p))
                        (filter (\<lambda>p. value_of (p_quantity p) \<le> threshold) (products_of d)))
        in (d, if rows = [] then No_low_stock else Low_stock_listing rows))"
  by (simp add: low_stock_report_def fetch_select_low_stock get_connection_def
      close_def Let_def)

section \<open>Doubles\<close>

lemma to_double_nonneg: "0 \<le> n \<Longrightarrow> 0 \<le> to_double n"
  by (simp add: to_double_def Let_def sgn_if pos_imp_zdiv_nonneg_iff)

lemma to_double_exact: "0 \<le> n \<Longrightarrow> bitlen n \<le> 53 \<Longrightarrow> to_double n = n"
  by (simp add: to_double_def Let_def sgn_if)

lemma int_div_less:
  assumes "0 < (c::int)" and "a < b * c"
  shows "a div c < b"
proof (rule ccontr)
  assume "\<not> a div c < b"
  then have "b \<le> a div c" by simp
  then have "b * c \<le> a div c * c" using assms(1) by (simp add: mult_right_mono)
  also have "\<dots> \<le> a"
  proof -
    have "a div c * c + a mod c = a" by simp
    moreover have "0 \<le> a mod c" using assms(1) by simp
    ultimately show ?thesis by linarith
  qed
  finally show False using assms(2) by simp
qed

lemma to_double_le_power:
  assumes "0 < n" and "53 \<le> bitlen n"
  shows "to_double n \<le> 2 ^ nat (bitlen n)"
proof -
  let ?k = "nat (bitlen n - 53)"
  let ?u = "(2::int) ^ ?k"
  have u: "0 < ?u" by simp
  have split: "nat (bitlen n) = 53 + ?k" using assms(2) by simp
  have "n < 2 ^ nat (bitlen n)" using bitlen_bounds[OF assms(1)] by simp
  then have "n < 2 ^ 53 * ?u" by (simp add: split power_add)
  with u have "n div ?u < 2 ^ 53" by (rule int_div_less)
  then have q: "n div ?u + 1 \<le> 2 ^ 53" by simp
  have nonneg: "0 \<le> n div ?u" using assms(1) by (simp add: pos_imp_zdiv_nonneg_iff)
  have "to_double n \<le> (n div ?u + 1) * ?u"
    using assms(1) nonneg by (simp add: to_double_def Let_def sgn_if)
  also have "\<dots> \<le> 2 ^ 53 * ?u" using q u by (simp add: mult_right_mono)
  also have "\<dots> = 2 ^ nat (bitlen n)" by (simp add: split power_add)
  finally show ?thesis .
qed

lemma to_double_le_2_63:
  assumes "0 \<le> n" and "n < 2 ^ 63"
  shows "to_double n \<le> 2 ^ 63"
proof (cases "bitlen n \<le> 53")
  case True
  with assms show ?thesis by (simp add: to_double_exact)
next
  case False
  then have pos: "0 < n" using assms(1) by (cases "n = 0") auto
  from False have big: "53 \<le> bitlen n" by simp
  have "2 ^ nat (bitlen n - 1) \<le> n" using bitlen_bounds[OF pos] by simp
  with assms(2) have "(2::int) ^ nat (bitlen n - 1) < 2 ^ 63" by simp
  then have "nat (bitlen n - 1) < 63" by (rule power_less_imp_less_exp[rotated]) simp
  then have "nat (bitlen n) \<le> 63" using big by simp
  then have "(2::int) ^ nat (bitlen n) \<le> 2 ^ 63"
    by (intro power_increasing) simp_all
  with to_double_le_power[OF pos big] show ?thesis by simp
qed

lemma integer_affinity_nonneg: "0 \<le> r \<Longrightarrow> stored_nonneg (integer_affinity r)"
  by (simp add: integer_affinity_def stored_nonneg_def)

lemma sql_add_nonneg:
  assumes "stored_nonneg v" and "0 < n"
  shows "stored_nonneg (sql_add v n)"
proof (cases v)
  case (INTEGER i)
  with assms have i: "0 \<le> i" by (simp add: stored_nonneg_def)
  have "0 \<le> to_double i + to_double n"
    using to_double_nonneg[of i] to_double_nonneg[of n] i assms(2) by simp
  then have "stored_nonneg (integer_affinity (to_double (to_double i + to_double n)))"
    by (intro integer_affinity_nonneg to_double_nonneg)
  moreover have "int64 (i + n) \<Longrightarrow> stored_nonneg (INTEGER (i + n))"
    using i assms(2) by (simp add: int64_def stored_nonneg_def)
  ultimately show ?thesis using INTEGER by (simp add: sql_add_def)
next
  case (REAL r)
  with assms have "0 \<le> r" by (simp add: stored_nonneg_def)
  then have "0 \<le> r + to_double n"
    using to_double_nonneg[of n] assms(2) by simp
  then have "stored_nonneg (integer_affinity (to_double (r + to_double n)))"
    by (intro integer_affinity_nonneg to_double_nonneg)
  with REAL show ?thesis by (simp add: sql_add_def)
qed

lemma sql_sub_nonneg:
  assumes "stored_nonneg v" and "0 < n" and "int64 n" and "\<not> value_of v < n"
  shows "stored_nonneg (sql_sub v n)"
proof (cases v)
  case (INTEGER i)
  with assms show ?thesis
    by (simp add: sql_sub_def stored_nonneg_def int64_def)
next
  case (REAL r)
  with assms have r: "2 ^ 63 \<le> r" by (simp add: stored_nonneg_def)
  have "to_double n \<le> 2 ^ 63"
    using assms(2,3) by (intro to_double_le_2_63) (simp_all add: int64_def)
  with r have "0 \<le> r - to_double n" by simp
  then have "stored_nonneg (integer_affinity (to_double (r - to_double n)))"
    by (intro integer_affinity_nonneg to_double_nonneg)
  with REAL show ?thesis by (simp add: sql_sub_def)
qed

lemma sql_add_integer:
  "0 \<le> i \<Longrightarrow> 0 < n \<Longrightarrow> i + n < 2 ^ 63 \<Longrightarrow> sql_add (INTEGER i) n = INTEGER (i + n)"
  by (simp add: sql_add_def int64_def)

lemma sql_sub_integer:
  "0 \<le> i \<Longrightarrow> i < 2 ^ 63 \<Longrightarrow> 0 < n \<Longrightarrow> n \<le> i \<Longrightarrow> sql_sub (INTEGER i) n = INTEGER (i - n)"
  by (simp add: sql_sub_def int64_def)

lemma bitlen_eqI:
  assumes "2 ^ k \<le> n" and "n < 2 ^ Suc k"
  shows "bitlen n = int (Suc k)"
proof -
  have pos: "0 < n" using assms(1) by (rule less_le_trans[rotated]) simp
  from bitlen_bounds[OF pos]
  have lo: "2 ^ nat (bitlen n - 1) \<le> n" and hi: "n < 2 ^ nat (bitlen n)" by simp_all
  from lo assms(2) have "(2::int) ^ nat (bitlen n - 1) < 2 ^ Suc k" by (rule le_less_trans)
  then have a: "nat (bitlen n - 1) < Suc k" by (rule power_less_imp_less_exp[rotated]) simp
  from assms(1) hi have "(2::int) ^ k < 2 ^ nat (bitlen n)" by (rule le_less_trans)
  then have b: "k < nat (bitlen n)" by (rule power_less_imp_less_exp[rotated]) simp
  from a b show ?thesis by simp
qed

lemma to_double_examples:
  "to_double 9223372036854775807 = 9223372036854775808"
  "to_double 9223372036854775808 = 9223372036854775808"
  "to_double 9223372036854775809 = 9223372036854775808"
  "to_double 9223372036854775810 = 9223372036854775808"
  "to_double 1 = 1"
  "to_double 2 = 2"
proof -
  have a: "bitlen 9223372036854775807 = 63"
    using bitlen_eqI[of 62 9223372036854775807] by simp
  have b: "bitlen 9223372036854775808 = 64"
    using bitlen_eqI[of 63 9223372036854775808] by simp
  have c: "bitlen 9223372036854775809 = 64"
    using bitlen_eqI[of 63 9223372036854775809] by simp
  have d: "bitlen 9223372036854775810 = 64"
    using bitlen_eqI[of 63 9223372036854775810] by simp
  have e: "bitlen 1 = 1"
    using bitlen_eqI[of 0 1] by simp
  have f: "bitlen 2 = 2"
    using bitlen_eqI[of 1 2] by simp
  show "to_double 9223372036854775807 = 9223372036854775808"
    by (simp add: to_double_def a Let_def)
  show "to_double 9223372036854775808 = 9223372036854775808"
    by (simp add: to_double_def b Let_def)
  show "to_double 9223372036854775809 = 9223372036854775808"
    by (simp add: to_double_def c Let_def)
  show "to_double 9223372036854775810 = 9223372036854775808"
    by (simp add: to_double_def d Let_def)
  show "to_double 1 = 1"
    by (simp add: to_double_def e Let_def)
  show "to_double 2 = 2"
    by (simp add: to_double_def f Let_def)
qed

section \<open>Row ids and the invariant of the stock\<close>

lemma fold_max_ge_init: "(s::int) \<le> fold max xs s"
  by (induction xs arbitrary: s) (auto intro: order_trans[OF max.cobounded2])

lemma fold_max_ge_mem: "x \<in> set xs \<Longrightarrow> (x::int) \<le> fold max xs s"
proof (induction xs arbitrary: s)
  case Nil
  then show ?case by simp
next
  case (Cons a xs)
  show ?case
  proof (cases "x = a")
    case True
    have "a \<le> max a s" by simp
    also have "\<dots> \<le> fold max xs (max a s)" by (rule fold_max_ge_init)
    finally show ?thesis using True by simp
  next
    case False
    with Cons show ?thesis by simp
  qed
qed

lemma autoincrement_fresh: "autoincrement seq ids \<notin> set ids"
proof
  assume "autoincrement seq ids \<in> set ids"
  then have "autoincrement seq ids \<le> fold max ids seq" by (rule fold_max_ge_mem)
  then show False by (simp add: autoincrement_def)
qed

lemma autoincrement_fresh_map: "x \<in> set xs \<Longrightarrow> autoincrement seq (map f xs) \<noteq> f x"
  using autoincrement_fresh[of seq "map f xs"] by auto

lemma find_unique:
  "distinct (map f xs) \<Longrightarrow> find (\<lambda>x. f x = k) xs = Some y \<Longrightarrow> x \<in> set xs \<Longrightarrow> f x = k \<Longrightarrow> x = y"
  by (induction xs) (auto split: if_splits)

lemma map_ids_update:
  "map (p_product_id \<circ> (\<lambda>p. if p_product_id p = pid then p\<lparr>p_quantity := g p\<rparr> else p)) ps
     = map p_product_id ps"
  by (induction ps) auto

lemma stock_in_inv: "stock_inv d \<Longrightarrow> stock_inv (fst (stock_in fails now pid qty d))"
  by (auto simp: stock_in_eq stock_inv_def product_ids_unique_def quantities_nonneg_def
        products_of_def list_all_iff map_ids_update sql_add_nonneg split: option.splits)

lemma stock_out_inv:
  assumes "stock_inv d"
  shows "stock_inv (fst (stock_out fails now pid qty d))"
proof (cases "Products d")
  case None
  with assms show ?thesis by (simp add: stock_out_eq)
next
  case (Some ps)
  from assms Some have dist: "distinct (map p_product_id ps)"
    and nn: "\<And>p. p \<in> set ps \<Longrightarrow> stored_nonneg (p_quantity p)"
    by (simp_all add: stock_inv_def product_ids_unique_def quantities_nonneg_def
        products_of_def list_all_iff)
  show ?thesis
  proof (cases "find (\<lambda>p. p_product_id p = pid) ps")
    case None
    with Some assms show ?thesis by (simp add: stock_out_eq)
  next
    case found: (Some product)
    have upd: "stored_nonneg (sql_sub (p_quantity p) qty)"
      if "p \<in> set ps" "p_product_id p = pid" "0 < qty" "int64 qty"
         "\<not> value_of (p_quantity product) < qty" for p
    proof -
      from find_unique[OF dist found that(1,2)] have "p = product" .
      with that nn[OF that(1)] show ?thesis by (intro sql_sub_nonneg) simp_all
    qed
    from Some found assms upd nn dist show ?thesis
      by (auto simp: stock_out_eq stock_inv_def product_ids_unique_def quantities_nonneg_def
          products_of_def list_all_iff map_ids_update)
  qed
qed

lemma add_product_inv:
  "stock_inv d \<Longrightarrow> stock_inv (fst (add_product fails name cat q price sid d))"
  by (auto simp: add_product_eq stock_inv_def product_ids_unique_def quantities_nonneg_def
        products_of_def list_all_iff autoincrement_fresh_map stored_nonneg_def int64_def
        split: option.splits)

lemma add_supplier_inv:
  "stock_inv d \<Longrightarrow> stock_inv (fst (add_supplier fails name c d))"
  by (auto simp: add_supplier_eq stock_inv_def product_ids_unique_def quantities_nonneg_def
        products_of_def)

lemma actions_inv: "stock_inv d \<Longrightarrow> stock_inv (fst (actions fails c d))"
  by (cases c)
     (simp_all add: stock_in_inv stock_out_inv add_product_inv add_supplier_inv
        view_suppliers_fst view_products_fst low_stock_report_fst transaction_report_fst)

lemma menu_loop_inv: "stock_inv d \<Longrightarrow> stock_inv (fst (menu_loop inputs d))"
proof (induction inputs arbitrary: d)
  case Nil
  then show ?case by simp
next
  case (Cons a inputs)
  obtain fails c where a: "a = (fails, c)" by (cases a)
  obtain d1 m where act: "actions fails c d = (d1, m)" by (cases "actions fails c d")
  from Cons.prems actions_inv[of d fails c] act have inv1: "stock_inv d1" by simp
  obtain d2 ms where rest: "menu_loop inputs d1 = (d2, ms)" by (cases "menu_loop inputs d1")
  from Cons.IH[OF inv1] rest have "stock_inv d2" by simp
  with a act rest inv1 Cons.prems show ?case by simp
qed

lemma stored_integer_nonneg: "stored_integer v \<Longrightarrow> stored_nonneg v"
  by (cases v) (simp_all add: stored_integer_def stored_nonneg_def)

lemma stock_out_integer:
  assumes "product_ids_unique d" and "quantities_integer d"
  shows "quantities_integer (fst (stock_out fails now pid qty d))"
proof (cases "Products d")
  case None
  with assms show ?thesis by (simp add: stock_out_eq)
next
  case (Some ps)
  from assms Some have dist: "distinct (map p_product_id ps)"
    and nn: "\<And>p. p \<in> set ps \<Longrightarrow> stored_integer (p_quantity p)"
    by (simp_all add: product_ids_unique_def quantities_integer_def
        products_of_def list_all_iff)
  show ?thesis
  proof (cases "find (\<lambda>p. p_product_id p = pid) ps")
    case None
    with Some assms show ?thesis by (simp add: stock_out_eq)
  next
    case found: (Some product)
    have upd: "stored_integer (sql_sub (p_quantity p) qty)"
      if "p \<in> set ps" "p_product_id p = pid" "0 < qty"
         "\<not> value_of (p_quantity product) < qty" for p
    proof -
      from find_unique[OF dist found that(1,2)] have "p = product" .
      with that nn[OF that(1)] show ?thesis
        by (cases "p_quantity p") (simp_all add: stored_integer_def sql_sub_integer)
    qed
    from Some found assms upd nn show ?thesis
      by (auto simp: stock_out_eq quantities_integer_def products_of_def list_all_iff)
  qed
qed

lemma stock_in_integer:
  assumes "quantities_integer d"
    and "\<forall>p \<in> set (products_of d). p_product_id p = pid
           \<longrightarrow> value_of (p_quantity p) + qty < 2 ^ 63"
  shows "quantities_integer (fst (stock_in fails now pid qty d))"
proof (cases "Products d")
  case None
  with assms show ?thesis by (simp add: stock_in_eq)
next
  case (Some ps)
  from assms Some have nn: "\<And>p. p \<in> set ps \<Longrightarrow> stored_integer (p_quantity p)"
    and room: "\<And>p. p \<in> set ps \<Longrightarrow> p_product_id p = pid
                 \<Longrightarrow> value_of (p_quantity p) + qty < 2 ^ 63"
    by (simp_all add: quantities_integer_def products_of_def list_all_iff)
  have upd: "stored_integer (sql_add (p_quantity p) qty)"
    if "p \<in> set ps" "p_product_id p = pid" "0 < qty" for p
    using that nn[OF that(1)] room[OF that(1,2)]
    by (cases "p_quantity p") (simp_all add: stored_integer_def sql_add_integer)
  from Some assms upd nn show ?thesis
    by (auto simp: stock_in_eq quantities_integer_def products_of_def list_all_iff
        split: option.splits)
qed

lemma add_product_integer:
  "quantities_integer d \<Longrightarrow>
     quantities_integer (fst (add_product fails name cat q price sid d))"
  by (auto simp: add_product_eq quantities_integer_def products_of_def list_all_iff
      stored_integer_def int64_def)

section \<open>Lookups by a unique key\<close>

lemma find_None_ids: "(find (\<lambda>p. f p = k) xs = None) = (k \<notin> f ` set xs)"
  by (auto simp: find_None_iff)

lemma find_Some_props: "find (\<lambda>p. f p = k) xs = Some y \<Longrightarrow> y \<in> set xs \<and> f y = k"
  by (auto simp: find_Some_iff)

lemma filter_unique_key:
  "distinct (map f ps) \<Longrightarrow>
     filter (\<lambda>p. k = f p) ps = (case find (\<lambda>p. f p = k) ps of None \<Rightarrow> [] | Some p \<Rightarrow> [p])"
proof (induction ps)
  case Nil
  show ?case by simp
next
  case (Cons a ps)
  show ?case
  proof (cases "f a = k")
    case True
    with Cons.prems have "\<forall>p \<in> set ps. k \<noteq> f p" by auto
    then have "filter (\<lambda>p. k = f p) ps = []" by (simp add: filter_empty_conv)
    with True show ?thesis by auto
  next
    case False
    with Cons show ?thesis by auto
  qed
qed

lemma left_join_unique_key:
  assumes "distinct (map f ps)"
  shows "left_join (\<lambda>t p. g t = f p) ts ps = map (\<lambda>t. (t, find (\<lambda>p. f p = g t) ps)) ts"
proof -
  have "\<And>t. (case filter (\<lambda>p. g t = f p) ps of [] \<Rightarrow> [(t, None)]
                | ms \<Rightarrow> map (\<lambda>y. (t, Some y)) ms) = [(t, find (\<lambda>p. f p = g t) ps)]"
    by (simp add: filter_unique_key[OF assms] split: option.splits)
  then show ?thesis
    by (induction ts) (simp_all add: left_join_def)
qed

section \<open>Existing transactions stay\<close>

lemma prefix_transactions_actions:
  "prefix (transactions_of d) (transactions_of (fst (actions fails c d)))"
proof (cases c)
  case (Choice_1 name contact)
  then show ?thesis by (simp add: add_supplier_eq transactions_of_def)
next
  case (Choice_3 name category quantity price supplier_id)
  then show ?thesis by (simp add: add_product_eq transactions_of_def)
next
  case (Choice_5 now pid qty)
  then show ?thesis
    by (simp add: stock_in_eq transactions_of_def split: option.splits)
next
  case (Choice_6 now pid qty)
  then show ?thesis
    by (simp add: stock_out_eq transactions_of_def split: option.splits)
qed (simp_all add: view_suppliers_fst view_products_fst low_stock_report_fst
      transaction_report_fst)

lemma prefix_transactions_create_tables:
  "transactions_of (fst (create_tables fails d)) = transactions_of d"
  by (simp add: create_tables_eq transactions_of_def split: option.splits)

lemma prefix_transactions_menu_loop:
  "prefix (transactions_of d) (transactions_of (fst (menu_loop inputs d)))"
proof (induction inputs arbitrary: d)
  case Nil
  show ?case by simp
next
  case (Cons a inputs)
  obtain fails c where a: "a = (fails, c)" by (cases a)
  obtain d1 m where act: "actions fails c d = (d1, m)" by (cases "actions fails c d")
  obtain d2 ms where rest: "menu_loop inputs d1 = (d2, ms)" by (cases "menu_loop inputs d1")
  from prefix_transactions_actions[of d fails c] act
  have p1: "prefix (transactions_of d) (transactions_of d1)" by simp
  from Cons.IH[of d1] rest have p2: "prefix (transactions_of d1) (transactions_of d2)" by simp
  from p1 p2 have "prefix (transactions_of d) (transactions_of d2)" by (rule prefix_order.trans)
  with a act rest p1 show ?case by simp
qed

section \<open>The example databases\<close>

lemma sample_db_tables:
  "Products sample_db = Some sample_products"
  "Transactions sample_db = Some sample_transactions"
  "products_of sample_db = sample_products"
  "transactions_of sample_db = sample_transactions"
  "Suppliers sample_db = Some [\<lparr>s_supplier_id = 1, s_name = ''Acme'', s_contact = None\<rparr>]"
  "suppliers_of sample_db = [\<lparr>s_supplier_id = 1, s_name = ''Acme'', s_contact = None\<rparr>]"
  "seq_Products sample_db = 2"
  "seq_Transactions sample_db = 3"
  by (simp_all add: sample_db_def suppliers_of_def products_of_def transactions_of_def)

lemma sample_db_unique: "distinct (map p_product_id sample_products)"
  by (simp add: sample_products_def)

lemma no_fault_simps: "\<not> no_fault k"
  by (simp add: no_fault_def)

lemma full_db_reached:
  "fst (main_menu no_fault
          [(no_fault, Choice_3 ''Bolt'' [] 9223372036854775807 (Float 1) None)] no_tables)
     = full_db"
  by (simp add: main_menu_def create_tables_eq add_product_eq no_fault_simps no_tables_def
      full_db_def suppliers_of_def products_of_def transactions_of_def int64_def
      autoincrement_def or_None_def)

lemma full_db_tables:
  "Products full_db = Some [\<lparr>p_product_id = 1, p_name = ''Bolt'', p_category = None,
                        p_quantity = INTEGER 9223372036854775807, p_price = Float 1,
                        p_supplier_id = None\<rparr>]"
  "Transactions full_db = Some []"
  "transactions_of full_db = []"
  "seq_Transactions full_db = 0"
  by (simp_all add: full_db_def transactions_of_def)

lemma insert_after_update:
  assumes "pid \<in> p_product_id ` set ps"
    and "int64 (autoincrement (seq_Transactions d) (map t_trans_id (transactions_of d)))"
  shows "step (insert_transaction pid ty qty now)
           (d\<lparr>Products := Some (map (\<lambda>p. if p_product_id p = pid
                                         then p\<lparr>p_quantity := g p\<rparr> else p) ps)\<rparr>)
       = Some (d\<lparr>Products := Some (map (\<lambda>p. if p_product_id p = pid
                                         then p\<lparr>p_quantity := g p\<rparr> else p) ps),
                 Transactions := Some (transactions_of d @
                   [\<lparr>t_trans_id = autoincrement (seq_Transactions d)
                                    (map t_trans_id (transactions_of d)),
                     t_product_id = pid, t_trans_type = ty, t_quantity = qty,
                     t_date = now\<rparr>]),
                 seq_Transactions := autoincrement (seq_Transactions d)
                                    (map t_trans_id (transactions_of d))\<rparr>)"
proof -
  let ?D = "d\<lparr>Products := Some (map (\<lambda>p. if p_product_id p = pid
                                         then p\<lparr>p_quantity := g p\<rparr> else p) ps)\<rparr>"
  have po: "products_of ?D = map (\<lambda>p. if p_product_id p = pid
                                         then p\<lparr>p_quantity := g p\<rparr> else p) ps"
    by (simp add: products_of_def)
  have "map p_product_id (products_of ?D) = map p_product_id ps"
    unfolding po by (simp add: map_ids_update)
  from arg_cong[OF this, of set]
  have eq: "set (map p_product_id (products_of ?D)) = set (map p_product_id ps)" .
  have m: "pid \<in> set (map p_product_id (products_of ?D))"
    unfolding eq using assms(1) by simp
  have tr: "transactions_of ?D = transactions_of d" "seq_Transactions ?D = seq_Transactions d"
    by (simp_all add: transactions_of_def)
  show ?thesis
    by (simp only: insert_transaction_def statement.select_convs m if_True Let_def tr
        assms(2))
qed

section \<open>The claims\<close>

text \<open>
  C1 does not hold without a bound: after \<^verbatim>\<open>add_product\<close> with the quantity \<open>2 ^ 63 - 1\<close> and a
  \<^verbatim>\<open>stock_in\<close> of 1 the stored quantity is not an integer but the \<^verbatim>\<open>REAL\<close>
  \<open>9223372036854775808.0\<close>.
\<close>

theorem C1_counterexample:
  "map p_quantity (products_of (fst (main_menu no_fault
      [(no_fault, Choice_3 ''Bolt'' [] 9223372036854775807 (Float 1) None),
       (no_fault, Choice_5 ''2026-01-02 09:00:00'' 1 1)] no_tables)))
     = [REAL 9223372036854775808]"
  by (simp add: main_menu_def create_tables_eq add_product_eq stock_in_eq no_fault_simps
      no_tables_def suppliers_of_def products_of_def transactions_of_def int64_def
      autoincrement_def or_None_def sql_add_def to_double_examples integer_affinity_def)

text \<open>
  C1, within 64 bits. Starting from a database in which no quantity is negative (\<^verbatim>\<open>add_product\<close>
  only inserts such rows), every \<^verbatim>\<open>stock_in\<close>, every \<^verbatim>\<open>stock_out\<close>, every \<^verbatim>\<open>add_product\<close>
  and every run of the menu, whichever calls fail in the database, leaves no quantity
  negative; so does every run of \<^verbatim>\<open>main_menu\<close> on a new file. The quantities that are
  64-bit integers stay 64-bit integers under \<^verbatim>\<open>stock_out\<close> and \<^verbatim>\<open>add_product\<close>, and under a
  \<^verbatim>\<open>stock_in\<close> that keeps the quantity of its product below \<open>2 ^ 63\<close>; beyond that SQLite
  stores a \<^verbatim>\<open>REAL\<close> of at least \<open>2 ^ 63\<close>.
\<close>

theorem C1_quantity_never_negative:
  assumes "product_ids_unique d" and "quantities_nonneg d"
  shows "quantities_nonneg (fst (stock_in fails now pid qty d))
       \<and> quantities_nonneg (fst (stock_out fails now pid qty d))
       \<and> quantities_nonneg (fst (add_product fails name category quantity price supplier_id d))
       \<and> quantities_nonneg (fst (menu_loop inputs d))
       \<and> quantities_nonneg (fst (main_menu fails inputs no_tables))
       \<and> (quantities_integer d \<longrightarrow>
            quantities_integer (fst (stock_out fails now pid qty d))
          \<and> quantities_integer
               (fst (add_product fails name category quantity price supplier_id d))
          \<and> ((\<forall>p \<in> set (products_of d). p_product_id p = pid
                  \<longrightarrow> value_of (p_quantity p) + qty < 2 ^ 63)
               \<longrightarrow> quantities_integer (fst (stock_in fails now pid qty d))))"
proof -
  from assms have inv: "stock_inv d" by (simp add: stock_inv_def)
  have "stock_inv (fst (create_tables fails no_tables))"
    by (simp add: create_tables_eq stock_inv_def product_ids_unique_def
        quantities_nonneg_def products_of_def no_tables_def)
  then have "stock_inv (fst (menu_loop inputs (fst (create_tables fails no_tables))))"
    by (rule menu_loop_inv)
  then have "stock_inv (fst (main_menu fails inputs no_tables))"
    by (simp add: main_menu_def split_beta Let_def)
  with stock_in_inv[OF inv] stock_out_inv[OF inv] add_product_inv[OF inv] menu_loop_inv[OF inv]
  have nonneg: "quantities_nonneg (fst (stock_in fails now pid qty d))
       \<and> quantities_nonneg (fst (stock_out fails now pid qty d))
       \<and> quantities_nonneg (fst (add_product fails name category quantity price supplier_id d))
       \<and> quantities_nonneg (fst (menu_loop inputs d))
       \<and> quantities_nonneg (fst (main_menu fails inputs no_tables))"
    by (simp add: stock_inv_def)
  have "quantities_integer (fst (stock_out fails now pid qty d))" if "quantities_integer d"
    using assms(1) that by (rule stock_out_integer)
  moreover
  have "quantities_integer (fst (add_product fails name category quantity price supplier_id d))"
    if "quantities_integer d"
    using that by (rule add_product_integer)
  moreover
  have "quantities_integer (fst (stock_in fails now pid qty d))"
    if "quantities_integer d"
      and "\<forall>p \<in> set (products_of d). p_product_id p = pid
              \<longrightarrow> value_of (p_quantity p) + qty < 2 ^ 63"
    using that by (rule stock_in_integer)
  ultimately show ?thesis using nonneg by blast
qed

theorem C1_quantity_never_negative_witness:
  "product_ids_unique sample_db \<and> quantities_nonneg sample_db \<and> quantities_integer sample_db
   \<and> value_of (p_quantity (sample_products ! 1)) + 5 < 2 ^ 63
   \<and> quantities_nonneg (fst (menu_loop
        [(no_fault, Choice_6 ''2026-01-02 09:00:00'' 1 10),
         (no_fault, Choice_6 ''2026-01-02 09:00:01'' 1 1),
         (no_fault, Choice_5 ''2026-01-02 09:00:02'' 2 5)] sample_db))
   \<and> quantities_integer (fst (stock_in no_fault ''2026-01-02 09:00:02'' 2 5 sample_db))
   \<and> quantities_integer (fst (stock_out no_fault ''2026-01-02 09:00:00'' 1 10 sample_db))"
proof -
  have u: "product_ids_unique sample_db"
    by (simp add: product_ids_unique_def sample_db_tables sample_products_def)
  have n: "quantities_nonneg sample_db"
    by (simp add: quantities_nonneg_def stored_nonneg_def sample_db_tables
        sample_products_def)
  have i: "quantities_integer sample_db"
    by (simp add: quantities_integer_def stored_integer_def sample_db_tables
        sample_products_def)
  have r: "\<forall>p \<in> set (products_of sample_db). p_product_id p = 2
             \<longrightarrow> value_of (p_quantity p) + 5 < 2 ^ 63"
    by (simp add: sample_db_tables sample_products_def)
  from C1_quantity_never_negative[OF u n, of no_fault "''2026-01-02 09:00:02''" 2 5]
    C1_quantity_never_negative[OF u n, of no_fault "''2026-01-02 09:00:00''" 1 10]
    C1_quantity_never_negative[OF u n]
    u n i r
  have "quantities_nonneg (fst (menu_loop
        [(no_fault, Choice_6 ''2026-01-02 09:00:00'' 1 10),
         (no_fault, Choice_6 ''2026-01-02 09:00:01'' 1 1),
         (no_fault, Choice_5 ''2026-01-02 09:00:02'' 2 5)] sample_db))
   \<and> quantities_integer (fst (stock_in no_fault ''2026-01-02 09:00:02'' 2 5 sample_db))
   \<and> quantities_integer (fst (stock_out no_fault ''2026-01-02 09:00:00'' 1 10 sample_db))"
    by blast
  moreover have "value_of (p_quantity (sample_products ! 1)) + 5 < 2 ^ 63"
    by (simp add: sample_products_def)
  ultimately show ?thesis using u n i by blast
qed

text \<open>
  C2 does not hold for every input: for product 1, which exists, and the positive quantity \<open>2 ^ 63\<close>,
  \<^verbatim>\<open>stock_in\<close> neither turns the input down nor succeeds; binding the quantity raises an
  \<^verbatim>\<open>OverflowError\<close> that nothing catches.
\<close>

theorem C2_counterexample:
  "stock_in no_fault ''2026-01-02 09:00:00'' 1 9223372036854775808 sample_db
     = (sample_db, Uncaught)"
  by (simp add: stock_in_eq sample_db_tables sample_products_def int64_def)

text \<open>
  C2, within 64 bits. With the tables in place and for a product id and a quantity that fit in 64
  bits, \<^verbatim>\<open>stock_in\<close> turns the input down exactly when the quantity is not positive or no
  product has the id, and \<^verbatim>\<open>stock_out\<close> exactly when, in addition, the quantity exceeds
  the quantity of the product; a call that is turned down leaves the file as it was, and
  every other such call, when no database call fails and a row id is left for the
  transaction, reports success and changes the file.
  For a product id outside 64 bits, and for a positive quantity outside 64 bits on an existing
  product (in \<^verbatim>\<open>stock_out\<close>: unless it exceeds the quantity of the product and is turned
  down), the call ends with an uncaught \<^verbatim>\<open>OverflowError\<close> and leaves the file as it was.
\<close>

theorem C2_stock_rejections:
  assumes "Products d = Some ps" and "Transactions d = Some ts"
    and "distinct (map p_product_id ps)"
  shows
    "(int64 pid \<and> qty < 2 ^ 63 \<longrightarrow>
       (rejected (snd (stock_in fails now pid qty d))
          \<longleftrightarrow> (qty \<le> 0 \<or> pid \<notin> p_product_id ` set ps))
     \<and> (rejected (snd (stock_in fails now pid qty d))
          \<longrightarrow> fst (stock_in fails now pid qty d) = d)
     \<and> (\<not> (qty \<le> 0 \<or> pid \<notin> p_product_id ` set ps) \<and> \<not> fails 0 \<and> \<not> fails 1 \<and> \<not> fails 2
          \<and> int64 (autoincrement (seq_Transactions d) (map t_trans_id ts))
          \<longrightarrow> succeeded (snd (stock_in fails now pid qty d))
            \<and> fst (stock_in fails now pid qty d) \<noteq> d)
     \<and> (rejected (snd (stock_out fails now pid qty d))
          \<longleftrightarrow> (qty \<le> 0 \<or> pid \<notin> p_product_id ` set ps
               \<or> (\<exists>p \<in> set ps. p_product_id p = pid \<and> value_of (p_quantity p) < qty)))
     \<and> (rejected (snd (stock_out fails now pid qty d))
          \<longrightarrow> fst (stock_out fails now pid qty d) = d)
     \<and> (\<not> (qty \<le> 0 \<or> pid \<notin> p_product_id ` set ps
               \<or> (\<exists>p \<in> set ps. p_product_id p = pid \<and> value_of (p_quantity p) < qty))
          \<and> \<not> fails 0 \<and> \<not> fails 1 \<and> \<not> fails 2
          \<and> int64 (autoincrement (seq_Transactions d) (map t_trans_id ts))
          \<longrightarrow> succeeded (snd (stock_out fails now pid qty d))
            \<and> fst (stock_out fails now pid qty d) \<noteq> d))
   \<and> (\<not> int64 pid \<longrightarrow>
         stock_in fails now pid qty d = (d, Uncaught)
       \<and> stock_out fails now pid qty d = (d, Uncaught))
   \<and> (int64 pid \<and> pid \<in> p_product_id ` set ps \<and> 2 ^ 63 \<le> qty \<longrightarrow>
         stock_in fails now pid qty d = (d, Uncaught)
       \<and> ((\<exists>p \<in> set ps. p_product_id p = pid \<and> value_of (p_quantity p) < qty)
            \<longrightarrow> rejected (snd (stock_out fails now pid qty d))
              \<and> fst (stock_out fails now pid qty d) = d)
       \<and> (\<not> (\<exists>p \<in> set ps. p_product_id p = pid \<and> value_of (p_quantity p) < qty)
            \<longrightarrow> stock_out fails now pid qty d = (d, Uncaught)))"
proof (cases "find (\<lambda>p. p_product_id p = pid) ps")
  case None
  then have "pid \<notin> p_product_id ` set ps" by (simp add: find_None_ids)
  with None assms show ?thesis
    by (simp add: stock_in_eq stock_out_eq)
next
  case (Some product)
  then have mem: "product \<in> set ps" and pid: "p_product_id product = pid"
    by (auto dest: find_Some_props)
  then have isin: "pid \<in> p_product_id ` set ps" by auto
  have uniq: "\<And>p. p \<in> set ps \<Longrightarrow> p_product_id p = pid \<Longrightarrow> p = product"
    using assms(3) Some by (rule find_unique)
  have low: "(\<exists>p \<in> set ps. p_product_id p = pid \<and> value_of (p_quantity p) < qty)
               = (value_of (p_quantity product) < qty)"
    using mem pid uniq by blast
  have neq: "d\<lparr>Products := Some x,
        Transactions := Some (ts @ [\<lparr>t_trans_id = autoincrement (seq_Transactions d) (map t_trans_id ts),
            t_product_id = pid, t_trans_type = ty, t_quantity = qty, t_date = now\<rparr>]),
        seq_Transactions := autoincrement (seq_Transactions d) (map t_trans_id ts)\<rparr> \<noteq> d"
    for ty x
  proof
    assume "d\<lparr>Products := Some x,
        Transactions := Some (ts @ [\<lparr>t_trans_id = autoincrement (seq_Transactions d) (map t_trans_id ts),
            t_product_id = pid, t_trans_type = ty, t_quantity = qty, t_date = now\<rparr>]),
        seq_Transactions := autoincrement (seq_Transactions d) (map t_trans_id ts)\<rparr> = d"
    then have "Transactions (d\<lparr>Products := Some x,
        Transactions := Some (ts @ [\<lparr>t_trans_id = autoincrement (seq_Transactions d) (map t_trans_id ts),
            t_product_id = pid, t_trans_type = ty, t_quantity = qty, t_date = now\<rparr>]),
        seq_Transactions := autoincrement (seq_Transactions d) (map t_trans_id ts)\<rparr>) = Transactions d"
      by simp
    with assms(2) show False by simp
  qed
  have range: "int64 qty" if "0 < qty" "qty < 2 ^ 63"
    using that by (simp add: int64_def)
  have out: "\<not> int64 qty" if "2 ^ 63 \<le> qty"
    using that by (simp add: int64_def)
  have pos: "\<not> qty \<le> 0" if "2 ^ 63 \<le> qty"
    using that by simp
  from Some assms(1,2) isin low neq range out pos show ?thesis
    by (auto simp add: stock_in_eq stock_out_eq transactions_of_def)
qed

theorem C2_stock_rejections_witness:
  "Products sample_db = Some sample_products
 \<and> Transactions sample_db = Some sample_transactions
 \<and> distinct (map p_product_id sample_products)
 \<and> int64 1 \<and> int64 2 \<and> int64 7 \<and> \<not> int64 9223372036854775808
 \<and> rejected (snd (stock_out no_fault ''2026-01-02 09:00:00'' 1 15 sample_db))
 \<and> fst (stock_out no_fault ''2026-01-02 09:00:00'' 1 15 sample_db) = sample_db
 \<and> succeeded (snd (stock_out no_fault ''2026-01-02 09:00:00'' 1 4 sample_db))
 \<and> rejected (snd (stock_in no_fault ''2026-01-02 09:00:00'' 7 4 sample_db))
 \<and> succeeded (snd (stock_in no_fault ''2026-01-02 09:00:00'' 2 4 sample_db))
 \<and> stock_out no_fault ''2026-01-02 09:00:00'' 9223372036854775808 4 sample_db
     = (sample_db, Uncaught)
 \<and> rejected (snd (stock_out no_fault ''2026-01-02 09:00:00'' 1 9223372036854775808 sample_db))"
proof -
  note h = sample_db_tables(1) sample_db_tables(2) sample_db_unique
  from C2_stock_rejections[OF h, of 1 15 no_fault "''2026-01-02 09:00:00''"]
    C2_stock_rejections[OF h, of 1 4 no_fault "''2026-01-02 09:00:00''"]
    C2_stock_rejections[OF h, of 7 4 no_fault "''2026-01-02 09:00:00''"]
    C2_stock_rejections[OF h, of 2 4 no_fault "''2026-01-02 09:00:00''"]
    C2_stock_rejections[OF h, of 9223372036854775808 4 no_fault "''2026-01-02 09:00:00''"]
    C2_stock_rejections[OF h, of 1 9223372036854775808 no_fault "''2026-01-02 09:00:00''"]
  show ?thesis using h
    by (simp add: sample_products_def sample_transactions_def sample_db_tables int64_def
        no_fault_simps autoincrement_def)
qed

text \<open>
  C3 does not hold for every quantity: on the database that \<^verbatim>\<open>add_product\<close> with the quantity \<open>2 ^ 63 - 1\<close>
  leaves, \<^verbatim>\<open>stock_in\<close> of 2 reports success, but the stored quantity goes from
  \<open>9223372036854775807\<close> to the \<^verbatim>\<open>REAL\<close> \<open>9223372036854775808.0\<close>, which is 1 more and not 2.
\<close>

theorem C3_counterexample:
  "succeeded (snd (stock_in no_fault ''2026-01-02 09:00:00'' 1 2 full_db))
 \<and> map p_quantity (products_of full_db) = [INTEGER 9223372036854775807]
 \<and> map p_quantity (products_of (fst (stock_in no_fault ''2026-01-02 09:00:00'' 1 2 full_db)))
     = [REAL 9223372036854775808]"
  by (simp add: stock_in_eq full_db_tables products_of_def no_fault_simps int64_def
      sql_add_def to_double_examples integer_affinity_def autoincrement_def)

text \<open>
  C3, within 64 bits. For a product whose stored quantity is a 64-bit integer \<open>i\<close> from 0:
  \<^verbatim>\<open>stock_in\<close> reports success exactly when the quantity is positive and fits in 64 bits
  (as does the id), no database call fails and a row id is left; when moreover \<open>i + qty\<close> stays below
  \<open>2 ^ 63\<close> it makes the quantity of that product \<open>i + qty\<close>, changes no other product,
  appends one transaction of type \<open>IN\<close> with that product, that quantity, the time \<open>now\<close>
  and an id no earlier transaction has, and leaves the suppliers alone. \<^verbatim>\<open>stock_out\<close>
  reports success exactly when the quantity is positive and at most \<open>i\<close>, no database
  call fails and a row id is left, and then does the same with \<open>i - qty\<close> and type \<open>OUT\<close>.
\<close>

theorem C3_stock_effect:
  assumes "Products d = Some ps" and "Transactions d = Some ts"
    and "distinct (map p_product_id ps)"
    and "product \<in> set ps" and "p_product_id product = pid" and "int64 pid"
    and "p_quantity product = INTEGER i" and "0 \<le> i" and "i < 2 ^ 63"
  shows
    "(succeeded (snd (stock_in fails now pid qty d))
        \<longleftrightarrow> (0 < qty \<and> qty < 2 ^ 63 \<and> \<not> fails 0 \<and> \<not> fails 1 \<and> \<not> fails 2
             \<and> int64 (autoincrement (seq_Transactions d) (map t_trans_id ts))))
   \<and> (succeeded (snd (stock_in fails now pid qty d)) \<and> i + qty < 2 ^ 63 \<longrightarrow>
        products_of (fst (stock_in fails now pid qty d)) =
          map (\<lambda>p. if p_product_id p = pid then p\<lparr>p_quantity := INTEGER (i + qty)\<rparr> else p) ps
      \<and> transactions_of (fst (stock_in fails now pid qty d)) =
          ts @ [\<lparr>t_trans_id = autoincrement (seq_Transactions d) (map t_trans_id ts),
                  t_product_id = pid, t_trans_type = IN, t_quantity = qty, t_date = now\<rparr>]
      \<and> autoincrement (seq_Transactions d) (map t_trans_id ts) \<notin> t_trans_id ` set ts
      \<and> suppliers_of (fst (stock_in fails now pid qty d)) = suppliers_of d)
   \<and> (succeeded (snd (stock_out fails now pid qty d))
        \<longleftrightarrow> (0 < qty \<and> qty \<le> i \<and> \<not> fails 0 \<and> \<not> fails 1 \<and> \<not> fails 2
             \<and> int64 (autoincrement (seq_Transactions d) (map t_trans_id ts))))
   \<and> (succeeded (snd (stock_out fails now pid qty d)) \<longrightarrow>
        products_of (fst (stock_out fails now pid qty d)) =
          map (\<lambda>p. if p_product_id p = pid then p\<lparr>p_quantity := INTEGER (i - qty)\<rparr> else p) ps
      \<and> transactions_of (fst (stock_out fails now pid qty d)) =
          ts @ [\<lparr>t_trans_id = autoincrement (seq_Transactions d) (map t_trans_id ts),
                  t_product_id = pid, t_trans_type = OUT, t_quantity = qty, t_date = now\<rparr>]
      \<and> autoincrement (seq_Transactions d) (map t_trans_id ts) \<notin> t_trans_id ` set ts
      \<and> suppliers_of (fst (stock_out fails now pid qty d)) = suppliers_of d)"
proof -
  have fresh: "autoincrement (seq_Transactions d) (map t_trans_id ts) \<notin> t_trans_id ` set ts"
    using autoincrement_fresh[of "seq_Transactions d" "map t_trans_id ts"] by simp
  have found: "find (\<lambda>p. p_product_id p = pid) ps = Some product"
  proof (cases "find (\<lambda>p. p_product_id p = pid) ps")
    case None
    with assms(4,5) show ?thesis by (auto simp: find_None_iff)
  next
    case (Some y)
    from find_unique[OF assms(3) Some assms(4,5)] Some show ?thesis by simp
  qed
  have uniq: "p = product" if "p \<in> set ps" "p_product_id p = pid" for p
    using assms(3) found that by (rule find_unique)
  have plus: "map (\<lambda>p. if p_product_id p = pid
                        then p\<lparr>p_quantity := sql_add (p_quantity p) qty\<rparr> else p) ps
            = map (\<lambda>p. if p_product_id p = pid then p\<lparr>p_quantity := INTEGER (i + qty)\<rparr> else p) ps"
    if "0 < qty" "i + qty < 2 ^ 63"
  proof (rule map_cong[OF refl])
    fix p assume p: "p \<in> set ps"
    show "(if p_product_id p = pid then p\<lparr>p_quantity := sql_add (p_quantity p) qty\<rparr> else p)
        = (if p_product_id p = pid then p\<lparr>p_quantity := INTEGER (i + qty)\<rparr> else p)"
      using uniq[OF p] assms(7,8) that by (auto simp: sql_add_integer)
  qed
  have minus: "map (\<lambda>p. if p_product_id p = pid
                        then p\<lparr>p_quantity := sql_sub (p_quantity p) qty\<rparr> else p) ps
            = map (\<lambda>p. if p_product_id p = pid then p\<lparr>p_quantity := INTEGER (i - qty)\<rparr> else p) ps"
    if "0 < qty" "qty \<le> i"
  proof (rule map_cong[OF refl])
    fix p assume p: "p \<in> set ps"
    show "(if p_product_id p = pid then p\<lparr>p_quantity := sql_sub (p_quantity p) qty\<rparr> else p)
        = (if p_product_id p = pid then p\<lparr>p_quantity := INTEGER (i - qty)\<rparr> else p)"
      using uniq[OF p] assms(7,8,9) that by (auto simp: sql_sub_integer)
  qed
  have range: "int64 qty = (qty < 2 ^ 63)" if "0 < qty"
    using that by (simp add: int64_def)
  have small: "qty < 2 ^ 63" if "qty \<le> i"
    using that assms(9) by simp
  have a: "succeeded (snd (stock_in fails now pid qty d))
        \<longleftrightarrow> (0 < qty \<and> qty < 2 ^ 63 \<and> \<not> fails 0 \<and> \<not> fails 1 \<and> \<not> fails 2
             \<and> int64 (autoincrement (seq_Transactions d) (map t_trans_id ts)))"
    using assms(1,2,6) found range by (auto simp add: stock_in_eq transactions_of_def)
  have b: "products_of (fst (stock_in fails now pid qty d)) =
          map (\<lambda>p. if p_product_id p = pid then p\<lparr>p_quantity := INTEGER (i + qty)\<rparr> else p) ps
      \<and> transactions_of (fst (stock_in fails now pid qty d)) =
          ts @ [\<lparr>t_trans_id = autoincrement (seq_Transactions d) (map t_trans_id ts),
                  t_product_id = pid, t_trans_type = IN, t_quantity = qty, t_date = now\<rparr>]
      \<and> suppliers_of (fst (stock_in fails now pid qty d)) = suppliers_of d"
    if "succeeded (snd (stock_in fails now pid qty d))" "i + qty < 2 ^ 63"
  proof -
    from that(1) a have c: "0 < qty" "qty < 2 ^ 63" "\<not> fails 0" "\<not> fails 1" "\<not> fails 2"
      "int64 (autoincrement (seq_Transactions d) (map t_trans_id ts))"
      by simp_all
    with assms(1,2,6) found range[OF c(1)] plus[OF c(1) that(2)] show ?thesis
      by (simp add: stock_in_eq products_of_def transactions_of_def suppliers_of_def)
  qed
  have c: "succeeded (snd (stock_out fails now pid qty d))
        \<longleftrightarrow> (0 < qty \<and> qty \<le> i \<and> \<not> fails 0 \<and> \<not> fails 1 \<and> \<not> fails 2
             \<and> int64 (autoincrement (seq_Transactions d) (map t_trans_id ts)))"
    using assms(1,2,6,7) found range small
    by (auto simp add: stock_out_eq transactions_of_def)
  have e: "products_of (fst (stock_out fails now pid qty d)) =
          map (\<lambda>p. if p_product_id p = pid then p\<lparr>p_quantity := INTEGER (i - qty)\<rparr> else p) ps
      \<and> transactions_of (fst (stock_out fails now pid qty d)) =
          ts @ [\<lparr>t_trans_id = autoincrement (seq_Transactions d) (map t_trans_id ts),
                  t_product_id = pid, t_trans_type = OUT, t_quantity = qty, t_date = now\<rparr>]
      \<and> suppliers_of (fst (stock_out fails now pid qty d)) = suppliers_of d"
    if "succeeded (snd (stock_out fails now pid qty d))"
  proof -
    from that c have f: "0 < qty" "qty \<le> i" "\<not> fails 0" "\<not> fails 1" "\<not> fails 2"
      "int64 (autoincrement (seq_Transactions d) (map t_trans_id ts))"
      by simp_all
    with assms(1,2,6,7) found range[OF f(1)] small[OF f(2)] minus[OF f(1,2)] show ?thesis
      by (simp add: stock_out_eq products_of_def transactions_of_def suppliers_of_def)
  qed
  from a b c e fresh show ?thesis by blast
qed

theorem C3_stock_effect_witness:
  "sample_products ! 0 \<in> set sample_products \<and> p_product_id (sample_products ! 0) = 1
 \<and> int64 1 \<and> p_quantity (sample_products ! 0) = INTEGER 10 \<and> (0::int) \<le> 10 \<and> (10::int) < 2 ^ 63
 \<and> succeeded (snd (stock_in no_fault ''2026-01-02 09:00:00'' 1 4 sample_db))
 \<and> map p_quantity
       (products_of (fst (stock_in no_fault ''2026-01-02 09:00:00'' 1 4 sample_db)))
     = [INTEGER 14, INTEGER 3]
 \<and> transactions_of (fst (stock_in no_fault ''2026-01-02 09:00:00'' 1 4 sample_db))
     = sample_transactions @
         [\<lparr>t_trans_id = 4, t_product_id = 1, t_trans_type = IN, t_quantity = 4,
           t_date = ''2026-01-02 09:00:00''\<rparr>]
 \<and> succeeded (snd (stock_out no_fault ''2026-01-02 09:00:00'' 1 4 sample_db))
 \<and> map p_quantity
       (products_of (fst (stock_out no_fault ''2026-01-02 09:00:00'' 1 4 sample_db)))
     = [INTEGER 6, INTEGER 3]
 \<and> transactions_of (fst (stock_out no_fault ''2026-01-02 09:00:00'' 1 4 sample_db))
     = sample_transactions @
         [\<lparr>t_trans_id = 4, t_product_id = 1, t_trans_type = OUT, t_quantity = 4,
           t_date = ''2026-01-02 09:00:00''\<rparr>]
 \<and> \<not> succeeded (snd (stock_out no_fault ''2026-01-02 09:00:00'' 1 11 sample_db))"
proof -
  have h: "sample_products ! 0 \<in> set sample_products" "p_product_id (sample_products ! 0) = 1"
    "int64 1" "p_quantity (sample_products ! 0) = INTEGER 10" "(0::int) \<le> 10"
    "(10::int) < 2 ^ 63"
    by (simp_all add: sample_products_def int64_def)
  have a: "autoincrement 3 (map t_trans_id sample_transactions) = 4"
    by (simp add: autoincrement_def sample_transactions_def)
  note t = C3_stock_effect[OF sample_db_tables(1) sample_db_tables(2) sample_db_unique h]
  from t[of no_fault "''2026-01-02 09:00:00''" 4] t[of no_fault "''2026-01-02 09:00:00''" 11]
  show ?thesis using h
    by (simp add: a sample_db_tables sample_products_def no_fault_simps int64_def)
qed

text \<open>
  C4. \<^verbatim>\<open>stock_in\<close> and \<^verbatim>\<open>stock_out\<close> apply both writes or neither, whichever calls fail. A
  call that reports success leaves the file that the \<^verbatim>\<open>UPDATE\<close> followed by the \<^verbatim>\<open>INSERT\<close>
  make of the old file: the quantity of the product is what the \<^verbatim>\<open>UPDATE\<close> computes and
  the transaction is appended. Every other call leaves the file as it was, in particular
  when the update, the insert after it or the commit raises. The transactions change exactly
  in the calls that report success, and the quantities change only together with the
  transactions.
\<close>

theorem C4_stock_atomic:
  "(succeeded (snd (stock_in fails now pid qty d)) \<longrightarrow>
      Option.bind (step (update_quantity_plus qty pid) d)
        (step (insert_transaction pid IN qty now)) = Some (fst (stock_in fails now pid qty d))
    \<and> products_of (fst (stock_in fails now pid qty d)) =
        map (\<lambda>p. if p_product_id p = pid
                 then p\<lparr>p_quantity := sql_add (p_quantity p) qty\<rparr> else p) (products_of d)
    \<and> transactions_of (fst (stock_in fails now pid qty d)) =
        transactions_of d @
          [\<lparr>t_trans_id = autoincrement (seq_Transactions d) (map t_trans_id (transactions_of d)),
            t_product_id = pid, t_trans_type = IN, t_quantity = qty, t_date = now\<rparr>])
 \<and> (\<not> succeeded (snd (stock_in fails now pid qty d)) \<longrightarrow> fst (stock_in fails now pid qty d) = d)
 \<and> (fails 0 \<or> fails 1 \<or> fails 2 \<longrightarrow> \<not> succeeded (snd (stock_in fails now pid qty d)))
 \<and> (fst (stock_in fails now pid qty d) = d
      \<or> fst (stock_in fails now pid qty d) = fst (stock_in (\<lambda>_. False) now pid qty d))
 \<and> (fails 0 \<or> fails 1 \<or> fails 2 \<longrightarrow> fst (stock_in fails now pid qty d) = d)
 \<and> (products_of (fst (stock_in fails now pid qty d)) \<noteq> products_of d
      \<longrightarrow> transactions_of (fst (stock_in fails now pid qty d)) \<noteq> transactions_of d)
 \<and> (transactions_of (fst (stock_in fails now pid qty d)) \<noteq> transactions_of d
      \<longleftrightarrow> succeeded (snd (stock_in fails now pid qty d)))
 \<and> (succeeded (snd (stock_out fails now pid qty d)) \<longrightarrow>
      Option.bind (step (update_quantity_minus qty pid) d)
        (step (insert_transaction pid OUT qty now)) = Some (fst (stock_out fails now pid qty d))
    \<and> products_of (fst (stock_out fails now pid qty d)) =
        map (\<lambda>p. if p_product_id p = pid
                 then p\<lparr>p_quantity := sql_sub (p_quantity p) qty\<rparr> else p) (products_of d)
    \<and> transactions_of (fst (stock_out fails now pid qty d)) =
        transactions_of d @
          [\<lparr>t_trans_id = autoincrement (seq_Transactions d) (map t_trans_id (transactions_of d)),
            t_product_id = pid, t_trans_type = OUT, t_quantity = qty, t_date = now\<rparr>])
 \<and> (\<not> succeeded (snd (stock_out fails now pid qty d))
      \<longrightarrow> fst (stock_out fails now pid qty d) = d)
 \<and> (fails 0 \<or> fails 1 \<or> fails 2 \<longrightarrow> \<not> succeeded (snd (stock_out fails now pid qty d)))
 \<and> (fst (stock_out fails now pid qty d) = d
      \<or> fst (stock_out fails now pid qty d) = fst (stock_out (\<lambda>_. False) now pid qty d))
 \<and> (fails 0 \<or> fails 1 \<or> fails 2 \<longrightarrow> fst (stock_out fails now pid qty d) = d)
 \<and> (products_of (fst (stock_out fails now pid qty d)) \<noteq> products_of d
      \<longrightarrow> transactions_of (fst (stock_out fails now pid qty d)) \<noteq> transactions_of d)
 \<and> (transactions_of (fst (stock_out fails now pid qty d)) \<noteq> transactions_of d
      \<longleftrightarrow> succeeded (snd (stock_out fails now pid qty d)))"
proof (cases "Products d")
  case None
  then show ?thesis by (simp add: stock_in_eq stock_out_eq)
next
  case (Some ps)
  show ?thesis
  proof (cases "find (\<lambda>p. p_product_id p = pid) ps")
    case None
    with Some show ?thesis by (simp add: stock_in_eq stock_out_eq)
  next
    case found: (Some product)
    then have "product \<in> set ps" and "p_product_id product = pid"
      by (auto simp: find_Some_iff)
    then have mem: "pid \<in> p_product_id ` set ps"
      by (intro image_eqI[where x = product]) simp_all
    have plus: "step (update_quantity_plus qty pid) d
        = Some (d\<lparr>Products := Some (map (\<lambda>p. if p_product_id p = pid
                 then p\<lparr>p_quantity := sql_add (p_quantity p) qty\<rparr> else p) ps)\<rparr>)"
      and minus: "step (update_quantity_minus qty pid) d
        = Some (d\<lparr>Products := Some (map (\<lambda>p. if p_product_id p = pid
                 then p\<lparr>p_quantity := sql_sub (p_quantity p) qty\<rparr> else p) ps)\<rparr>)"
      using Some
      by (simp_all add: update_quantity_plus_def update_quantity_minus_def products_of_def)
    from Some found
    show ?thesis
      by (auto simp add: stock_in_eq stock_out_eq products_of_def plus minus
          insert_after_update[OF mem] transactions_of_def)
  qed
qed

theorem C4_stock_atomic_witness:
  "fst (stock_in (\<lambda>k. k = 1) ''2026-01-02 09:00:00'' 1 4 sample_db) = sample_db
 \<and> fst (stock_out (\<lambda>k. k = 2) ''2026-01-02 09:00:00'' 1 4 sample_db) = sample_db
 \<and> succeeded (snd (stock_in no_fault ''2026-01-02 09:00:00'' 1 4 sample_db))
 \<and> map p_quantity
      (products_of (fst (stock_in no_fault ''2026-01-02 09:00:00'' 1 4 sample_db)))
     = [INTEGER 14, INTEGER 3]
 \<and> length (transactions_of (fst (stock_in no_fault ''2026-01-02 09:00:00'' 1 4 sample_db)))
     = 4
 \<and> succeeded (snd (stock_out no_fault ''2026-01-02 09:00:00'' 1 4 sample_db))
 \<and> map p_quantity
      (products_of (fst (stock_out no_fault ''2026-01-02 09:00:00'' 1 4 sample_db)))
     = [INTEGER 6, INTEGER 3]"
proof -
  have s: "succeeded (snd (stock_in no_fault ''2026-01-02 09:00:00'' 1 4 sample_db))"
    "succeeded (snd (stock_out no_fault ''2026-01-02 09:00:00'' 1 4 sample_db))"
    by (simp_all add: stock_in_eq stock_out_eq sample_db_tables sample_products_def
        sample_transactions_def no_fault_simps int64_def autoincrement_def)
  from C4_stock_atomic[of "\<lambda>k. k = 1" "''2026-01-02 09:00:00''" 1 4 sample_db]
    C4_stock_atomic[of "\<lambda>k. k = 2" "''2026-01-02 09:00:00''" 1 4 sample_db]
    C4_stock_atomic[of no_fault "''2026-01-02 09:00:00''" 1 4 sample_db] s
  show ?thesis
    by (simp add: sample_db_tables sample_products_def sample_transactions_def
        sql_add_def sql_sub_def int64_def autoincrement_def)
qed

text \<open>
  C5 does not hold for every id: for the supplier id \<open>2 ^ 63\<close>, which no supplier has, \<^verbatim>\<open>add_product\<close>
  is not turned down with a message; the query of \<^verbatim>\<open>supplier_exists\<close> raises an
  \<^verbatim>\<open>OverflowError\<close> that nothing catches.
\<close>

theorem C5_counterexample:
  "add_product no_fault ''Washer'' [] 5 (Float 1) (Some 9223372036854775808) sample_db
     = (sample_db, Uncaught)"
  by (simp add: add_product_eq sample_db_tables int64_def)

text \<open>
  C5, by the size of the id. \<^verbatim>\<open>add_product\<close> with a supplier id that no supplier has
  inserts nothing, whichever database calls would fail, and never reaches the insert: it ends
  before it or in the check of the application. When the name and the quantity pass and the
  table of suppliers exists, it ends with the message of the application that the supplier
  does not exist if the id fits in 64 bits, and with the uncaught \<^verbatim>\<open>OverflowError\<close> of the
  query of \<^verbatim>\<open>supplier_exists\<close> if it does not; never with a database error of the insert.
\<close>

theorem C5_missing_supplier_rejected:
  assumes "sid \<notin> s_supplier_id ` set (suppliers_of d)"
  shows "fst (add_product fails name category quantity price (Some sid) d) = d
       \<and> snd (add_product fails name category quantity price (Some sid) d)
           \<in> {Product_name_cannot_be_empty, Quantity_must_be_0_or_greater,
              Uncaught, Supplier_ID_does_not_exist}
       \<and> (name \<noteq> [] \<and> 0 \<le> quantity \<and> Suppliers d \<noteq> None \<and> int64 sid \<longrightarrow>
            add_product fails name category quantity price (Some sid) d
              = (d, Supplier_ID_does_not_exist))
       \<and> (name \<noteq> [] \<and> 0 \<le> quantity \<and> Suppliers d \<noteq> None \<and> \<not> int64 sid \<longrightarrow>
            add_product fails name category quantity price (Some sid) d
              = (d, Uncaught))"
  using assms by (simp add: add_product_eq)

theorem C5_missing_supplier_rejected_witness:
  "7 \<notin> s_supplier_id ` set (suppliers_of sample_db)
 \<and> int64 7
 \<and> add_product (\<lambda>_. True) ''Washer'' '''' 5 (Float 1) (Some 7) sample_db
     = (sample_db, Supplier_ID_does_not_exist)"
proof -
  have h: "7 \<notin> s_supplier_id ` set (suppliers_of sample_db)"
    by (simp add: sample_db_tables)
  have "Suppliers sample_db \<noteq> None"
    by (simp add: sample_db_tables)
  moreover have "int64 7"
    by (simp add: int64_def)
  ultimately show ?thesis
    using C5_missing_supplier_rejected[OF h, of "\<lambda>_. True" "''Washer''" "''''" 5 "Float 1"] h
    by simp
qed

text \<open>
  C6. Every operation, every run of the menu and every run of \<^verbatim>\<open>main_menu\<close>, whichever
  database calls fail, leaves the transactions that exist where they are and as they are: the
  old list is a prefix of the new one, and the views, the reports and \<^verbatim>\<open>create_tables\<close>
  leave the list as it is.
\<close>

theorem C6_transactions_append_only:
  "prefix (transactions_of d) (transactions_of (fst (add_supplier fails name contact d)))
 \<and> prefix (transactions_of d)
      (transactions_of (fst (add_product fails name category quantity price supplier_id d)))
 \<and> prefix (transactions_of d) (transactions_of (fst (stock_in fails now pid qty d)))
 \<and> prefix (transactions_of d) (transactions_of (fst (stock_out fails now pid qty d)))
 \<and> transactions_of (fst (view_suppliers d)) = transactions_of d
 \<and> transactions_of (fst (view_products d)) = transactions_of d
 \<and> transactions_of (fst (low_stock_report threshold d)) = transactions_of d
 \<and> transactions_of (fst (transaction_report d)) = transactions_of d
 \<and> transactions_of (fst (create_tables fails d)) = transactions_of d
 \<and> prefix (transactions_of d) (transactions_of (fst (menu_loop inputs d)))
 \<and> prefix (transactions_of d) (transactions_of (fst (main_menu fails inputs d)))"
proof -
  have "prefix (transactions_of (fst (create_tables fails d)))
          (transactions_of (fst (menu_loop inputs (fst (create_tables fails d)))))"
    by (rule prefix_transactions_menu_loop)
  then have main: "prefix (transactions_of d) (transactions_of (fst (main_menu fails inputs d)))"
    by (simp add: main_menu_def split_beta prefix_transactions_create_tables)
  from prefix_transactions_actions[of d fails "Choice_1 name contact"]
    prefix_transactions_actions[of d fails "Choice_3 name category quantity price supplier_id"]
    prefix_transactions_actions[of d fails "Choice_5 now pid qty"]
    prefix_transactions_actions[of d fails "Choice_6 now pid qty"]
    prefix_transactions_menu_loop[of d inputs] main
  show ?thesis
    by (simp add: view_suppliers_fst view_products_fst low_stock_report_fst
        transaction_report_fst prefix_transactions_create_tables)
qed

text \<open>
  C7 does not hold for every threshold: for the threshold \<open>2 ^ 63\<close> the report lists nothing; binding the
  threshold raises an \<^verbatim>\<open>OverflowError\<close> that nothing catches.
\<close>

theorem C7_counterexample:
  "low_stock_report 9223372036854775808 sample_db = (sample_db, Uncaught)"
  by (simp add: low_stock_report_eq sample_db_tables int64_def)

text \<open>
  C7, within 64 bits. For a threshold from 0 below \<open>2 ^ 63\<close> the low-stock report leaves the file
  as it is and lists, each once, the id, name and quantity of exactly the products whose
  quantity is at most the threshold, in ascending order of quantity. For a threshold of
  \<open>2 ^ 63\<close> or more it ends with an uncaught \<^verbatim>\<open>OverflowError\<close> and leaves the file as it is.
\<close>

theorem C7_low_stock_report:
  assumes "0 \<le> threshold" and "Products d = Some ps"
  shows "(threshold < 2 ^ 63 \<longrightarrow>
           fst (low_stock_report threshold d) = d
         \<and> snd (low_stock_report threshold d) =
             (if low_stock_rows (snd (low_stock_report threshold d)) = [] then No_low_stock
              else Low_stock_listing (low_stock_rows (snd (low_stock_report threshold d))))
         \<and> mset (low_stock_rows (snd (low_stock_report threshold d))) =
             mset (map (\<lambda>p. (p_product_id p, p_name p, p_quantity p))
                    (filter (\<lambda>p. value_of (p_quantity p) \<le> threshold) ps))
         \<and> sorted (map (\<lambda>(i, n, q). value_of q)
                     (low_stock_rows (snd (low_stock_report threshold d)))))
       \<and> (2 ^ 63 \<le> threshold \<longrightarrow> low_stock_report threshold d = (d, Uncaught))"
proof -
  let ?rows = "map (\<lambda>p. (p_product_id p, p_name p, p_quantity p))
                 (sort_key (\<lambda>p. value_of (p_quantity p))
                    (filter (\<lambda>p. value_of (p_quantity p) \<le> threshold) ps))"
  have big: "low_stock_report threshold d = (d, Uncaught)" if "2 ^ 63 \<le> threshold"
    using assms that by (simp add: low_stock_report_eq int64_def)
  have rep: "low_stock_report threshold d =
               (d, if ?rows = [] then No_low_stock else Low_stock_listing ?rows)"
    if "threshold < 2 ^ 63"
    using assms that
    by (simp add: low_stock_report_eq int64_def products_of_def Let_def)
  have rows: "low_stock_rows (snd (low_stock_report threshold d)) = ?rows"
    if "threshold < 2 ^ 63"
    by (simp add: rep[OF that])
  have srt: "sorted (map (\<lambda>(i, n, q). value_of q) ?rows)"
    by (simp add: comp_def)
  have ms: "mset ?rows = mset (map (\<lambda>p. (p_product_id p, p_name p, p_quantity p))
                  (filter (\<lambda>p. value_of (p_quantity p) \<le> threshold) ps))"
    by simp
  have small: "fst (low_stock_report threshold d) = d
         \<and> snd (low_stock_report threshold d) =
             (if low_stock_rows (snd (low_stock_report threshold d)) = [] then No_low_stock
              else Low_stock_listing (low_stock_rows (snd (low_stock_report threshold d))))
         \<and> mset (low_stock_rows (snd (low_stock_report threshold d))) =
             mset (map (\<lambda>p. (p_product_id p, p_name p, p_quantity p))
                    (filter (\<lambda>p. value_of (p_quantity p) \<le> threshold) ps))
         \<and> sorted (map (\<lambda>(i, n, q). value_of q)
                     (low_stock_rows (snd (low_stock_report threshold d))))"
    if "threshold < 2 ^ 63"
    unfolding rows[OF that] using rep[OF that] srt ms by simp
  from small big show ?thesis by blast
qed

theorem C7_low_stock_report_witness:
  "(0::int) \<le> 5 \<and> (5::int) < 2 ^ 63 \<and> Products sample_db = Some sample_products
 \<and> low_stock_report 5 sample_db = (sample_db, Low_stock_listing [(2, ''Nut'', INTEGER 3)])
 \<and> low_stock_report 10 sample_db
     = (sample_db, Low_stock_listing [(2, ''Nut'', INTEGER 3), (1, ''Bolt'', INTEGER 10)])"
proof -
  have h: "(0::int) \<le> 5" by simp
  have m: "mset rows = mset [(2::int, ''Nut'', INTEGER 3)] \<Longrightarrow> rows = [(2, ''Nut'', INTEGER 3)]"
    for rows
    by (cases rows) auto
  from C7_low_stock_report[OF h sample_db_tables(1)] m
  have "low_stock_rows (snd (low_stock_report 5 sample_db)) = [(2, ''Nut'', INTEGER 3)]"
    by (simp add: sample_products_def)
  with C7_low_stock_report[OF h sample_db_tables(1)]
  have "fst (low_stock_report 5 sample_db) = sample_db
      \<and> snd (low_stock_report 5 sample_db) = Low_stock_listing [(2, ''Nut'', INTEGER 3)]"
    by simp
  moreover have "low_stock_report 10 sample_db
     = (sample_db, Low_stock_listing [(2, ''Nut'', INTEGER 3), (1, ''Bolt'', INTEGER 10)])"
    by (simp add: low_stock_report_eq sample_db_tables sample_products_def int64_def)
  ultimately show ?thesis using h sample_db_tables(1) by (simp add: prod_eq_iff)
qed

text \<open>
  C8. The transaction report leaves the file as it is and lists every transaction once, with
  the name of the product that has its product id, later dates first and, among equal dates,
  larger transaction ids first.
\<close>

theorem C8_transaction_report:
  assumes "Transactions d = Some ts" and "Products d = Some ps"
    and "distinct (map p_product_id ps)"
  shows "fst (transaction_report d) = d
       \<and> snd (transaction_report d) =
           (if transaction_rows (snd (transaction_report d)) = [] then No_transactions_found
            else Transactions_listing (transaction_rows (snd (transaction_report d))))
       \<and> mset (map fst (transaction_rows (snd (transaction_report d)))) = mset ts
       \<and> (\<forall>r \<in> set (transaction_rows (snd (transaction_report d))).
            snd r = map_option p_name (find (\<lambda>p. p_product_id p = t_product_id (fst r)) ps))
       \<and> sorted_wrt (\<lambda>r1 r2. t_date (fst r2) < t_date (fst r1)
                        \<or> (t_date (fst r2) = t_date (fst r1)
                            \<and> t_trans_id (fst r2) \<le> t_trans_id (fst r1)))
           (transaction_rows (snd (transaction_report d)))"
proof -
  let ?key = "\<lambda>r :: transaction \<times> string option. (t_date (fst r), t_trans_id (fst r))"
  let ?joined = "map (\<lambda>t. (t, map_option p_name
                             (find (\<lambda>p. p_product_id p = t_product_id t) ps))) ts"
  let ?rows = "rev (sort_key ?key ?joined)"
  have sel: "fetch select_transactions (get_connection d) = Returned ?rows"
    using assms(1,2)
    by (simp add: fetch_select_transactions get_connection_def transactions_of_def
        products_of_def left_join_unique_key[OF assms(3)] comp_def)
  have rep: "transaction_report d =
               (d, if ?rows = [] then No_transactions_found else Transactions_listing ?rows)"
    by (simp add: transaction_report_def sel close_get_connection Let_def
        del: rev_is_Nil_conv)
  have rows: "transaction_rows (snd (transaction_report d)) = ?rows"
    by (simp add: rep)
  have "map fst ?joined = ts"
    by (simp add: comp_def)
  moreover have "mset ?rows = mset ?joined"
    by simp
  then have "mset (map fst ?rows) = mset (map fst ?joined)"
    by (simp only: mset_map)
  ultimately have ms: "mset (map fst ?rows) = mset ts"
    by simp
  have jn: "\<forall>r \<in> set ?rows.
              snd r = map_option p_name (find (\<lambda>p. p_product_id p = t_product_id (fst r)) ps)"
    by auto
  have "sorted (map ?key (sort_key ?key ?joined))"
    by (rule sorted_sort_key)
  then have "sorted_wrt (\<lambda>r1 r2. ?key r1 \<le> ?key r2) (sort_key ?key ?joined)"
    by (simp only: sorted_map)
  then have "sorted_wrt (\<lambda>r1 r2. ?key r2 \<le> ?key r1) ?rows"
    by (simp only: sorted_wrt_rev)
  then have srt: "sorted_wrt (\<lambda>r1 r2. t_date (fst r2) < t_date (fst r1)
                        \<or> (t_date (fst r2) = t_date (fst r1)
                            \<and> t_trans_id (fst r2) \<le> t_trans_id (fst r1))) ?rows"
    by (rule sorted_wrt_mono_rel[rotated]) auto
  show ?thesis
    unfolding rows using rep ms jn srt by simp
qed

theorem C8_transaction_report_witness:
  "Transactions sample_db = Some sample_transactions
 \<and> Products sample_db = Some sample_products
 \<and> distinct (map p_product_id sample_products)
 \<and> fst (transaction_report sample_db) = sample_db
 \<and> mset (map fst (transaction_rows (snd (transaction_report sample_db))))
      = mset sample_transactions
 \<and> transaction_rows (snd (transaction_report sample_db))
      = [(sample_transactions ! 1, Some ''Bolt''), (sample_transactions ! 0, Some ''Nut''),
         (sample_transactions ! 2, Some ''Bolt'')]"
proof -
  note h = sample_db_tables(2) sample_db_tables(1) sample_db_unique
  have "transaction_rows (snd (transaction_report sample_db))
      = [(sample_transactions ! 1, Some ''Bolt''), (sample_transactions ! 0, Some ''Nut''),
         (sample_transactions ! 2, Some ''Bolt'')]"
    by (simp add: transaction_report_def fetch_select_transactions get_connection_def
        close_def left_join_def sample_db_tables sample_products_def
        sample_transactions_def Let_def)
  with C8_transaction_report[OF h] h show ?thesis by simp
qed

text \<open>
  C9. When the three tables exist, \<^verbatim>\<open>create_tables\<close> leaves the file as it is, whichever of
  its calls fail; a run in which no call fails creates the missing tables empty and keeps the
  rows of the others, and a second run after it changes nothing.
\<close>

theorem C9_create_tables_idempotent:
  "(Suppliers d \<noteq> None \<and> Products d \<noteq> None \<and> Transactions d \<noteq> None
      \<longrightarrow> fst (create_tables fails d) = d)
 \<and> create_tables (\<lambda>_. False) (fst (create_tables (\<lambda>_. False) d)) = create_tables (\<lambda>_. False) d
 \<and> fst (create_tables fails (fst (create_tables (\<lambda>_. False) d)))
      = fst (create_tables (\<lambda>_. False) d)
 \<and> Suppliers (fst (create_tables (\<lambda>_. False) d)) = Some (suppliers_of d)
 \<and> Products (fst (create_tables (\<lambda>_. False) d)) = Some (products_of d)
 \<and> Transactions (fst (create_tables (\<lambda>_. False) d)) = Some (transactions_of d)"
  by (auto simp add: create_tables_eq suppliers_of_def products_of_def transactions_of_def)

theorem C9_create_tables_idempotent_witness:
  "fst (create_tables (\<lambda>k. k = 1) sample_db) = sample_db
 \<and> create_tables (\<lambda>_. False) (fst (create_tables (\<lambda>_. False) no_tables))
     = create_tables (\<lambda>_. False) no_tables
 \<and> Transactions (fst (create_tables (\<lambda>_. False) no_tables)) = Some []"
  using C9_create_tables_idempotent[of sample_db "\<lambda>k. k = 1"]
    C9_create_tables_idempotent[of no_tables "\<lambda>_. False"]
  by (simp add: sample_db_def transactions_of_def no_tables_def)




end
